theory Spec2Isabelle
  imports Complex_Main
begin

section \<open>The values that the script handles\<close>

text \<open>
  The script \<^verbatim>\<open>valorant_stats.py\<close> is one function, \<^verbatim>\<open>main\<close>, that reads a credential and
  one line of input, performs a chain of HTTP GET calls and prints a report. Everything
  outside the script
  (the environment, the console, the network) is a parameter of the model; everything the
  script does that can be observed (a line printed, a request sent, how \<^verbatim>\<open>main\<close> ends) is
  part of the result.

  The bodies returned by \<^verbatim>\<open>r.json()\<close> are Python values built from JSON. A dict is an
  association list with distinct keys, read with \<open>map_of\<close>. JSON numbers with a fraction or
  an exponent (Python floats) are outside the model; the ints are of any size.
\<close>

datatype json =
    JNull
  | JBool bool
  | JNum int
  | JStr string
  | JArr "json list"
  | JObj "(string \<times> json) list"

text \<open>The exceptions that the script can meet. All of them are subclasses of \<^verbatim>\<open>Exception\<close>.\<close>

datatype exn =
    RequestException string
  | HTTPError nat
  | JSONDecodeError
  | KeyError string
  | IndexError
  | TypeError
  | AttributeError
  | ValueError
  | EOFError
  | OverflowError

text \<open>
  Text that is printed or sent is kept as a list of pieces, so that Python's \<^verbatim>\<open>str()\<close> of a
  value or of an exception, and the rounding of \<^verbatim>\<open>{x:.2f}\<close>, need no model of their own:
  \<open>Lit s\<close> is the string \<open>s\<close>, \<open>StrOf v\<close> is \<^verbatim>\<open>str(v)\<close>, \<open>ExnStr e\<close> is \<^verbatim>\<open>str(e)\<close>,
  \<open>Fixed d q\<close> is the float \<open>q\<close> formatted with \<open>d\<close> decimals, and \<open>Fixed_int d i\<close> is the
  int \<open>i\<close> formatted in the same way.
\<close>

datatype piece =
    Lit string
  | StrOf json
  | ExnStr exn
  | Fixed nat rat
  | Fixed_int nat int

text \<open>
  A number that the script computes is a float (kept as the exact rational) or an int;
  \<^verbatim>\<open>{x:.1f}\<close> accepts both.
\<close>

datatype number =
    PyFloat rat
  | PyInt int

definition fixed :: "nat \<Rightarrow> number \<Rightarrow> piece" where
  "fixed d x = (case x of PyFloat q \<Rightarrow> Fixed d q | PyInt i \<Rightarrow> Fixed_int d i)"

type_synonym fstring = "piece list"

datatype event =
    Input fstring
  | Print fstring
  | Http_get fstring string

datatype outcome =
    Returned
  | Aborted exn

type_synonym run = "event list \<times> outcome"

text \<open>
  What \<^verbatim>\<open>requests.get\<close> meets: either the call raises (no connection, invalid URL, ...)
  or a response arrives with a status code and a body that may or may not be JSON.
\<close>

datatype response =
    Conn_failed string
  | Reply nat "json option"

text \<open>
  The world of one run. \<open>net w n url token\<close> is the answer to the \<open>n\<close>-th request of the
  run (counted from 0), so the same URL may be answered differently at different times.
\<close>

record world =
  api_key :: "string option"
  stdin :: "string option"
  net :: "nat \<Rightarrow> fstring \<Rightarrow> string \<Rightarrow> response"

subsection \<open>Python operations on values\<close>

text \<open>\<^verbatim>\<open>v[k]\<close> for a string \<open>k\<close>: only a dict can be subscripted with a string.\<close>

definition subscript :: "json \<Rightarrow> string \<Rightarrow> exn + json" where
  "subscript v k =
     (case v of
        JObj kv \<Rightarrow> (case map_of kv k of None \<Rightarrow> Inl (KeyError k) | Some x \<Rightarrow> Inr x)
      | _ \<Rightarrow> Inl TypeError)"

text \<open>\<^verbatim>\<open>v.get(k, d)\<close>: only a dict has the method.\<close>

definition get_or :: "json \<Rightarrow> string \<Rightarrow> json \<Rightarrow> exn + json" where
  "get_or v k d =
     (case v of
        JObj kv \<Rightarrow> Inr (case map_of kv k of None \<Rightarrow> d | Some x \<Rightarrow> x)
      | _ \<Rightarrow> Inl AttributeError)"

text \<open>Truth value testing, as \<^verbatim>\<open>if v\<close> and \<^verbatim>\<open>not v\<close> do it.\<close>

fun truthy :: "json \<Rightarrow> bool" where
  "truthy JNull = False"
| "truthy (JBool b) = b"
| "truthy (JNum n) = (n \<noteq> 0)"
| "truthy (JStr s) = (s \<noteq> [])"
| "truthy (JArr xs) = (xs \<noteq> [])"
| "truthy (JObj kv) = (kv \<noteq> [])"

text \<open>
  \<^verbatim>\<open>a == b\<close>. A bool is an int in Python (\<^verbatim>\<open>True == 1\<close>); two dicts are equal when they
  have the same keys with equal values.
\<close>

fun py_eq :: "json \<Rightarrow> json \<Rightarrow> bool" where
  "py_eq JNull JNull = True"
| "py_eq (JBool a) (JBool b) = (a = b)"
| "py_eq (JBool a) (JNum n) = (n = (if a then 1 else 0))"
| "py_eq (JNum n) (JBool a) = (n = (if a then 1 else 0))"
| "py_eq (JNum a) (JNum b) = (a = b)"
| "py_eq (JStr a) (JStr b) = (a = b)"
| "py_eq (JArr xs) (JArr ys) = list_all2 py_eq xs ys"
| "py_eq (JObj a) (JObj b) =
     (length a = length b \<and>
      list_all (\<lambda>(k, v). list_ex (\<lambda>(k', v'). k' = k \<and> py_eq v v') b) a)"
| "py_eq _ _ = False"

text \<open>\<^verbatim>\<open>acc += x\<close> for an int \<open>acc\<close>: \<open>x\<close> must be a number (a bool counts as 0 or 1).\<close>

definition py_add :: "int \<Rightarrow> json \<Rightarrow> exn + int" where
  "py_add acc x =
     (case x of
        JNum n \<Rightarrow> Inr (acc + n)
      | JBool b \<Rightarrow> Inr (acc + (if b then 1 else 0))
      | _ \<Rightarrow> Inl TypeError)"

text \<open>\<^verbatim>\<open>xs[i]\<close> for a list and an int: a negative index counts from the end.\<close>

definition py_index :: "json list \<Rightarrow> int \<Rightarrow> exn + json" where
  "py_index xs i =
     (if 0 \<le> i
      then (if nat i < length xs then Inr (xs ! nat i) else Inl IndexError)
      else (if nat (- i) \<le> length xs then Inr (xs ! (length xs - nat (- i)))
            else Inl IndexError))"

text \<open>
  Looking a value up as a key of a dict whose keys are strings (\<^verbatim>\<open>d.get(v)\<close>, \<^verbatim>\<open>v in d\<close>):
  the value is hashed first, which a list or a dict refuses; a string is looked up; any
  other value is no key of the dict.
\<close>

definition lookup_key :: "(string \<times> 'a) list \<Rightarrow> json \<Rightarrow> exn + 'a option" where
  "lookup_key d v =
     (case v of
        JStr s \<Rightarrow> Inr (map_of d s)
      | JArr _ \<Rightarrow> Inl TypeError
      | JObj _ \<Rightarrow> Inl TypeError
      | _ \<Rightarrow> Inr None)"

text \<open>Sequencing of steps that may raise: the first exception wins.\<close>

definition and_then :: "exn + 'a \<Rightarrow> ('a \<Rightarrow> exn + 'b) \<Rightarrow> exn + 'b" where
  "and_then r f = (case r of Inl e \<Rightarrow> Inl e | Inr x \<Rightarrow> f x)"

text \<open>
  \<^verbatim>\<open>v[:5]\<close>. A list gives its first five elements; a string gives its first five
  characters, kept here as the list of one-character strings that iterating over it yields;
  nothing else can be sliced (a dict raises as well, with \<^verbatim>\<open>TypeError\<close> or, from Python 3.12
  on, \<^verbatim>\<open>KeyError\<close>: the handler of line 90 catches both).
\<close>

definition first_five :: "json \<Rightarrow> exn + json list" where
  "first_five v =
     (case v of
        JArr xs \<Rightarrow> Inr (take 5 xs)
      | JStr s \<Rightarrow> Inr (map (\<lambda>c. JStr [c]) (take 5 s))
      | _ \<Rightarrow> Inl TypeError)"

subsection \<open>Strings\<close>

text \<open>
  A \<open>char\<close> is a code point below 256; code points from 256 on are outside the model.
  These are the twelve code points below 256 that \<^verbatim>\<open>str.isspace()\<close> accepts, and so the
  ones that \<^verbatim>\<open>str.strip()\<close> removes: the ASCII white space, the four separators from 0x1C
  to 0x1F, NEL (0x85) and the no-break space (0xA0).
\<close>

definition is_space :: "char \<Rightarrow> bool" where
  "is_space c = (c \<in> set [CHR 0x09, CHR 0x0A, CHR 0x0B, CHR 0x0C, CHR 0x0D,
                            CHR 0x1C, CHR 0x1D, CHR 0x1E, CHR 0x1F, CHR 0x20,
                            CHR 0x85, CHR 0xA0])"

definition strip :: "string \<Rightarrow> string" where
  "strip s = rev (dropWhile is_space (rev (dropWhile is_space s)))"

text \<open>\<^verbatim>\<open>s.split(c)\<close> for a one-character separator: always at least one part.\<close>

fun split_on :: "char \<Rightarrow> string \<Rightarrow> string list" where
  "split_on c [] = [[]]"
| "split_on c (x # xs) =
     (if x = c then [] # split_on c xs
      else (case split_on c xs of
              [] \<Rightarrow> [[x]]
            | p # ps \<Rightarrow> (x # p) # ps))"

text \<open>\<^verbatim>\<open>a in s\<close> for two strings: \<open>a\<close> occurs in \<open>s\<close> as a contiguous block.\<close>

definition is_substring :: "string \<Rightarrow> string \<Rightarrow> bool" where
  "is_substring a s = list_ex (\<lambda>i. take (length a) (drop i s) = a) [0..<Suc (length s)]"

section \<open>The run\<close>

text \<open>
  A stage of \<^verbatim>\<open>main\<close> produces events and then either ends the run (\<open>Inl\<close>: \<^verbatim>\<open>main\<close>
  returned, or an exception left it) or hands a value to the next stage (\<open>Inr\<close>).
\<close>

type_synonym 'a stage = "event list \<times> (outcome + 'a)"

definition then_stage :: "'a stage \<Rightarrow> ('a \<Rightarrow> 'b stage) \<Rightarrow> 'b stage" where
  "then_stage m f =
     (case m of
        (ev, Inl out) \<Rightarrow> (ev, Inl out)
      | (ev, Inr x) \<Rightarrow> (case f x of (ev', r) \<Rightarrow> (ev @ ev', r)))"

subsection \<open>Lines 10 to 21: credential and Riot ID\<close>

definition prompt :: fstring where
  "prompt = [Lit ''Enter Riot ID (e.g., GameName#TagLine): '']"

definition missing_key_msg :: fstring where
  "missing_key_msg = [Lit ''Missing RIOT_API_KEY in .env file.'']"

definition invalid_id_msg :: fstring where
  "invalid_id_msg = [Lit ''Invalid Riot ID format. Must be GameName#TagLine.'']"

text \<open>
  The stage yields \<open>(api_key, riot_id, game_name, tag_line)\<close>. Unpacking the parts of the
  split into two names raises \<^verbatim>\<open>ValueError\<close> unless there are exactly two parts, and the
  handler prints and returns. \<^verbatim>\<open>input\<close> raises \<^verbatim>\<open>EOFError\<close> at the end of the input, which
  nothing handles.
\<close>

definition startup :: "world \<Rightarrow> (string \<times> string \<times> string \<times> string) stage" where
  "startup w =
     (case api_key w of
        None \<Rightarrow> ([Print missing_key_msg], Inl Returned)
      | Some key \<Rightarrow>
          if key = [] then ([Print missing_key_msg], Inl Returned)
          else (case stdin w of
                  None \<Rightarrow> ([Input prompt], Inl (Aborted EOFError))
                | Some entered \<Rightarrow>
                    (let riot_id = strip entered in
                     case split_on CHR ''#'' riot_id of
                       [game_name, tag_line] \<Rightarrow>
                         ([Input prompt], Inr (key, riot_id, game_name, tag_line))
                     | _ \<Rightarrow> ([Input prompt, Print invalid_id_msg], Inl Returned))))"

subsection \<open>Lines 33 to 63: account and shard\<close>

text \<open>
  \<^verbatim>\<open>requests.get\<close>, \<^verbatim>\<open>raise_for_status\<close> and \<^verbatim>\<open>json()\<close> for the \<open>n\<close>-th request of the
  run: a status from 400 to 599 raises, and so does a body that is not JSON.
\<close>

definition get_json :: "world \<Rightarrow> nat \<Rightarrow> fstring \<Rightarrow> string \<Rightarrow> exn + json" where
  "get_json w n url key =
     (case net w n url key of
        Conn_failed msg \<Rightarrow> Inl (RequestException msg)
      | Reply status body \<Rightarrow>
          if 400 \<le> status \<and> status < 600 then Inl (HTTPError status)
          else (case body of None \<Rightarrow> Inl JSONDecodeError | Some j \<Rightarrow> Inr j))"

definition account_url :: "string \<Rightarrow> string \<Rightarrow> fstring" where
  "account_url game_name tag_line =
     [Lit ''https://americas.api.riotgames.com/riot/account/v1/accounts/by-riot-id/'',
      Lit game_name, Lit ''/'', Lit tag_line]"

definition fetch_puuid :: "world \<Rightarrow> string \<Rightarrow> string \<Rightarrow> string \<Rightarrow> json stage" where
  "fetch_puuid w key game_name tag_line =
     (let url = account_url game_name tag_line in
      case and_then (get_json w 0 url key)
             (\<lambda>account_data. and_then (subscript account_data ''puuid'')
                (\<lambda>puuid. Inr (account_data, puuid))) of
        Inl e \<Rightarrow>
          ([Http_get url key, Print [Lit ''Error fetching PUUID: '', ExnStr e]], Inl Returned)
      | Inr (account_data, puuid) \<Rightarrow>
          ([Http_get url key, Print [Lit ''ACCOUNT DATA: '', StrOf account_data]], Inr puuid))"

definition active_shard_url :: "json \<Rightarrow> fstring" where
  "active_shard_url puuid =
     [Lit ''https://americas.api.riotgames.com/riot/account/v1/active-shards/by-game/val/by-puuid/'',
      StrOf puuid]"

definition fetch_shard :: "world \<Rightarrow> string \<Rightarrow> json \<Rightarrow> json stage" where
  "fetch_shard w key puuid =
     (let url = active_shard_url puuid in
      case and_then (get_json w 1 url key)
             (\<lambda>active_shard_data. subscript active_shard_data ''activeShard'') of
        Inl e \<Rightarrow>
          ([Http_get url key, Print [Lit ''Error fetching active shard: '', ExnStr e]],
           Inl Returned)
      | Inr actual_region \<Rightarrow>
          ([Http_get url key, Print [Lit ''ACTIVE SHARD: '', StrOf actual_region]],
           Inr actual_region))"

subsection \<open>Lines 68 to 79: the host of the shard\<close>

definition americas :: string where
  "americas = ''americas.api.riotgames.com''"

definition region_map :: "(string \<times> string) list" where
  "region_map =
     [(''na'', ''americas.api.riotgames.com''),
      (''latam'', ''americas.api.riotgames.com''),
      (''br'', ''americas.api.riotgames.com''),
      (''eu'', ''eu.api.riotgames.com''),
      (''ap'', ''asia.api.riotgames.com''),
      (''kr'', ''kr.api.riotgames.com'')]"

definition unknown_shard_msg :: "json \<Rightarrow> fstring" where
  "unknown_shard_msg actual_region =
     [Lit (''Unknown activeShard '' @ [CHR 0x27]), StrOf actual_region,
      Lit (CHR 0x27 # '', defaulting to americas.'')]"

text \<open>
  \<^verbatim>\<open>region_map.get(actual_region, ...)\<close> hashes the shard code, so a code that is a list or
  a dict raises \<^verbatim>\<open>TypeError\<close> outside every handler. The warning is printed under the
  condition of line 78.
\<close>

definition pick_host :: "json \<Rightarrow> string stage" where
  "pick_host actual_region =
     (case lookup_key region_map actual_region of
        Inl e \<Rightarrow> ([], Inl (Aborted e))
      | Inr found \<Rightarrow>
          (let val_domain = (case found of None \<Rightarrow> americas | Some known \<Rightarrow> known) in
           if val_domain \<noteq> americas \<and> found = None
           then ([Print (unknown_shard_msg actual_region)], Inr val_domain)
           else ([], Inr val_domain)))"

subsection \<open>Lines 84 to 92: the match list\<close>

definition match_history_url :: "string \<Rightarrow> json \<Rightarrow> fstring" where
  "match_history_url val_domain puuid =
     [Lit ''https://'', Lit val_domain, Lit ''/val/match/v1/matchlists/by-puuid/'', StrOf puuid]"

definition fetch_matches :: "world \<Rightarrow> string \<Rightarrow> string \<Rightarrow> json \<Rightarrow> json list stage" where
  "fetch_matches w key val_domain puuid =
     (let url = match_history_url val_domain puuid in
      case and_then (get_json w 2 url key)
             (\<lambda>data. and_then (get_or data ''history'' (JArr [])) first_five) of
        Inl e \<Rightarrow>
          ([Http_get url key, Print [Lit ''Error fetching match history: '', ExnStr e]],
           Inl Returned)
      | Inr matches \<Rightarrow> ([Http_get url key], Inr matches))"

text \<open>What the run knows once the match list is there.\<close>

record session =
  credential :: string
  ident :: string
  host :: string
  account_id :: json
  match_items :: "json list"

definition resolve :: "world \<Rightarrow> session stage" where
  "resolve w =
     then_stage (startup w) (\<lambda>(key, riot_id, game_name, tag_line).
     then_stage (fetch_puuid w key game_name tag_line) (\<lambda>puuid.
     then_stage (fetch_shard w key puuid) (\<lambda>actual_region.
     then_stage (pick_host actual_region) (\<lambda>val_domain.
     then_stage (fetch_matches w key val_domain puuid) (\<lambda>matches.
       ([], Inr \<lparr>credential = key, ident = riot_id, host = val_domain,
                 account_id = puuid, match_items = matches\<rparr>))))))"

subsection \<open>Lines 101 to 146: one match\<close>

record totals =
  total_kills :: int
  total_deaths :: int
  total_assists :: int
  total_wins :: int

definition no_totals :: totals where
  "no_totals = \<lparr>total_kills = 0, total_deaths = 0, total_assists = 0, total_wins = 0\<rparr>"

text \<open>
  Line 123: \<^verbatim>\<open>next((p for p in players_list if p["puuid"] == puuid), None)\<close>. The entries
  are tried in order and the search stops at the first one that matches; an entry that
  cannot be subscripted with \<^verbatim>\<open>"puuid"\<close> raises before any later entry is seen. \<^verbatim>\<open>None\<close> is
  \<open>JNull\<close>.
\<close>

fun find_player :: "json list \<Rightarrow> json \<Rightarrow> exn + json" where
  "find_player [] puuid = Inr JNull"
| "find_player (p # ps) puuid =
     (case subscript p ''puuid'' of
        Inl e \<Rightarrow> Inl e
      | Inr v \<Rightarrow> if py_eq v puuid then Inr p else find_player ps puuid)"

text \<open>
  The generator iterates over \<^verbatim>\<open>players_list\<close>, which is truthy at that point. If it is
  not a list, it is a number or \<^verbatim>\<open>True\<close> (not iterable), or a string or a dict (whose
  items are strings, which cannot be subscripted with a string): \<^verbatim>\<open>TypeError\<close> each time.
\<close>

definition search_players :: "json \<Rightarrow> json \<Rightarrow> exn + json" where
  "search_players players_list puuid =
     (case players_list of
        JArr ps \<Rightarrow> find_player ps puuid
      | _ \<Rightarrow> Inl TypeError)"

text \<open>Line 145: \<^verbatim>\<open>team.get("won")\<close> as a truth value.\<close>

definition won_flag :: "json \<Rightarrow> exn + bool" where
  "won_flag team = and_then (get_or team ''won'' JNull) (\<lambda>won. Inr (truthy won))"

text \<open>
  Lines 144 and 145: \<^verbatim>\<open>team_id and team_id in teams_data\<close>, then
  \<^verbatim>\<open>teams_data[team_id].get("won")\<close>. For a dict, membership is a key lookup. For a list,
  membership compares with the elements, and the subscript needs an int. For a string,
  membership needs a string and the subscript then fails. Nothing else supports \<^verbatim>\<open>in\<close>.
\<close>

definition team_won :: "json \<Rightarrow> json \<Rightarrow> exn + bool" where
  "team_won team_id teams_data =
     (if \<not> truthy team_id then Inr False
      else (case teams_data of
              JObj kv \<Rightarrow>
                and_then (lookup_key kv team_id)
                  (\<lambda>found. case found of None \<Rightarrow> Inr False | Some team \<Rightarrow> won_flag team)
            | JArr xs \<Rightarrow>
                if list_ex (\<lambda>x. py_eq x team_id) xs
                then (case team_id of
                        JNum i \<Rightarrow> and_then (py_index xs i) won_flag
                      | JBool b \<Rightarrow> and_then (py_index xs (if b then 1 else 0)) won_flag
                      | _ \<Rightarrow> Inl TypeError)
                else Inr False
            | JStr s \<Rightarrow>
                (case team_id of
                   JStr a \<Rightarrow> if is_substring a s then Inl TypeError else Inr False
                 | _ \<Rightarrow> Inl TypeError)
            | _ \<Rightarrow> Inl TypeError))"

text \<open>Lines 128 to 146, for the player entry that was found.\<close>

definition add_player_stats :: "totals \<Rightarrow> json \<Rightarrow> json \<Rightarrow> exn + totals" where
  "add_player_stats t match_data player_data =
     and_then (get_or player_data ''stats'' (JObj [])) (\<lambda>stats.
     and_then (get_or stats ''kills'' (JNum 0)) (\<lambda>kills.
     and_then (get_or stats ''deaths'' (JNum 0)) (\<lambda>deaths.
     and_then (get_or stats ''assists'' (JNum 0)) (\<lambda>assists.
     and_then (py_add (total_kills t) kills) (\<lambda>k.
     and_then (py_add (total_deaths t) deaths) (\<lambda>d.
     and_then (py_add (total_assists t) assists) (\<lambda>a.
     and_then (get_or player_data ''teamId'' JNull) (\<lambda>team_id.
     and_then (get_or match_data ''teams'' (JObj [])) (\<lambda>teams_data.
     and_then (team_won team_id teams_data) (\<lambda>won.
       Inr \<lparr>total_kills = k, total_deaths = d, total_assists = a,
            total_wins = (if won then total_wins t + 1 else total_wins t)\<rparr>))))))))))"

text \<open>
  Lines 116 to 146, for a match detail that was fetched: \<open>Inr\<close> is the totals with which
  the loop goes on, \<open>Inl\<close> an exception that nothing handles.
\<close>

definition add_match_stats :: "json \<Rightarrow> totals \<Rightarrow> json \<Rightarrow> exn + totals" where
  "add_match_stats puuid t match_data =
     and_then (get_or match_data ''players'' (JArr [])) (\<lambda>players_list.
       if \<not> truthy players_list then Inr t
       else and_then (search_players players_list puuid) (\<lambda>player_data.
         if \<not> truthy player_data then Inr t
         else add_player_stats t match_data player_data))"

definition match_url :: "string \<Rightarrow> json \<Rightarrow> fstring" where
  "match_url val_domain match_id =
     [Lit ''https://'', Lit val_domain, Lit ''/val/match/v1/matches/'', StrOf match_id]"

definition skip_msg :: "json \<Rightarrow> exn \<Rightarrow> fstring" where
  "skip_msg match_id e =
     [Lit ''Skipping match '', StrOf match_id, Lit '' due to error: '', ExnStr e]"

text \<open>
  One turn of the loop (lines 104 to 146), when \<open>n\<close> requests have been sent before it.
  Only the three lines of the \<^verbatim>\<open>try\<close> are protected.
\<close>

definition process_match ::
  "world \<Rightarrow> session \<Rightarrow> nat \<Rightarrow> totals \<Rightarrow> json \<Rightarrow> event list \<times> (exn + totals)" where
  "process_match w s n t match_item =
     (case subscript match_item ''matchId'' of
        Inl e \<Rightarrow> ([], Inl e)
      | Inr match_id \<Rightarrow>
          (let url = match_url (host s) match_id in
           case get_json w n url (credential s) of
             Inl e \<Rightarrow> ([Http_get url (credential s), Print (skip_msg match_id e)], Inr t)
           | Inr match_data \<Rightarrow>
               ([Http_get url (credential s)], add_match_stats (account_id s) t match_data)))"

fun is_request :: "event \<Rightarrow> bool" where
  "is_request (Http_get url key) = True"
| "is_request (Input p) = False"
| "is_request (Print p) = False"

definition requests_in :: "event list \<Rightarrow> nat" where
  "requests_in ev = length (filter is_request ev)"

fun match_loop ::
  "world \<Rightarrow> session \<Rightarrow> nat \<Rightarrow> totals \<Rightarrow> json list \<Rightarrow> event list \<times> (exn + totals)" where
  "match_loop w s n t [] = ([], Inr t)"
| "match_loop w s n t (match_item # rest) =
     (case process_match w s n t match_item of
        (ev, Inl e) \<Rightarrow> (ev, Inl e)
      | (ev, Inr t') \<Rightarrow>
          (case match_loop w s (n + requests_in ev) t' rest of
             (ev', r) \<Rightarrow> (ev @ ev', r)))"

subsection \<open>Lines 151 to 161: the report\<close>

text \<open>
  The two quotients are floats in the script; here they are the exact rationals, and the
  rounding to two and to one decimal is left to \<open>Fixed\<close>. The division of two ints of
  line 152 raises \<^verbatim>\<open>OverflowError\<close> when the quotient, rounded to the nearest float, is
  beyond the largest one: from \<open>2 ^ 1024 - 2 ^ 970\<close> on, in absolute value. The wins are at
  most the length of the list, so line 154 cannot overflow.
\<close>

definition kda :: "totals \<Rightarrow> rat" where
  "kda t =
     (let deaths_safe = max 1 (total_deaths t)
      in of_int (total_kills t + total_assists t) / of_int deaths_safe)"

definition float_overflows :: "rat \<Rightarrow> bool" where
  "float_overflows q = (2 ^ 1024 - 2 ^ 970 \<le> \<bar>q\<bar>)"

text \<open>
  Line 154: the quotient is a float, the value of the other branch is the int \<^verbatim>\<open>0\<close>.
\<close>

definition win_rate :: "totals \<Rightarrow> nat \<Rightarrow> number" where
  "win_rate t games_count =
     (if games_count \<noteq> 0 then PyFloat ((of_int (total_wins t) / of_nat games_count) * 100)
      else PyInt 0)"

definition report :: "string \<Rightarrow> totals \<Rightarrow> nat \<Rightarrow> event list" where
  "report riot_id t games_count =
     [Print [Lit (CHR 0x0A # ''Stats for ''), Lit riot_id, Lit '':''],
      Print [Lit ''KDA: '', Fixed 2 (kda t)],
      Print [Lit ''Win Rate: '', fixed 1 (win_rate t games_count), Lit ''%'']]"

text \<open>
  How the run ends after the loop: with the exception when a turn of the loop raised,
  with \<^verbatim>\<open>OverflowError\<close> and nothing printed when the KDA is beyond the floats, and with the
  report otherwise.
\<close>

definition finish :: "string \<Rightarrow> nat \<Rightarrow> event list \<times> (exn + totals) \<Rightarrow> run" where
  "finish riot_id games_count r =
     (case r of
        (ev, Inl e) \<Rightarrow> (ev, Aborted e)
      | (ev, Inr t) \<Rightarrow>
          if float_overflows (kda t) then (ev, Aborted OverflowError)
          else (ev @ report riot_id t games_count, Returned))"

definition no_matches_msg :: fstring where
  "no_matches_msg = [Lit ''No matches found.'']"

text \<open>Lines 94 to 161. Three requests have been sent when the loop starts.\<close>

definition after_history :: "world \<Rightarrow> session \<Rightarrow> run" where
  "after_history w s =
     (if match_items s = [] then ([Print no_matches_msg], Returned)
      else finish (ident s) (length (match_items s))
             (match_loop w s 3 no_totals (match_items s)))"

text \<open>A run that follows the events \<open>ev\<close>.\<close>

definition after :: "event list \<Rightarrow> run \<Rightarrow> run" where
  "after ev r = (case r of (ev', out) \<Rightarrow> (ev @ ev', out))"

definition main :: "world \<Rightarrow> run" where
  "main w =
     (case resolve w of
        (ev, Inl out) \<Rightarrow> (ev, out)
      | (ev, Inr s) \<Rightarrow> after ev (after_history w s))"

subsection \<open>Observing a run\<close>

text \<open>The two lines of statistics are printed by the report and by nothing else.\<close>

fun is_stat_line :: "event \<Rightarrow> bool" where
  "is_stat_line (Print (Lit s # rest)) = (s = ''KDA: '' \<or> s = ''Win Rate: '')"
| "is_stat_line e = False"

definition reports :: "run \<Rightarrow> bool" where
  "reports r = list_ex is_stat_line (fst r)"

section \<open>Example runs\<close>

text \<open>
  A network that answers the requests of a run from a list, in order, and a world around
  it with a credential and the line that is typed.
\<close>

definition scripted :: "response list \<Rightarrow> nat \<Rightarrow> fstring \<Rightarrow> string \<Rightarrow> response" where
  "scripted answers n url key =
     (if n < length answers then answers ! n else Conn_failed ''no answer'')"

definition example_world :: "string \<Rightarrow> response list \<Rightarrow> world" where
  "example_world entered answers =
     \<lparr>api_key = Some ''RGAPI-0000'', stdin = Some entered, net = scripted answers\<rparr>"

definition ok :: "json \<Rightarrow> response" where
  "ok body = Reply 200 (Some body)"

definition account_reply :: response where
  "account_reply = ok (JObj [(''puuid'', JStr ''P1''), (''gameName'', JStr ''Ann''),
                             (''tagLine'', JStr ''EUW'')])"

definition shard_reply :: "string \<Rightarrow> response" where
  "shard_reply code = ok (JObj [(''puuid'', JStr ''P1''), (''game'', JStr ''val''),
                                (''activeShard'', JStr code)])"

text \<open>An item of the match list, with the id of the match.\<close>

definition listed :: "string \<Rightarrow> json" where
  "listed match_id = JObj [(''matchId'', JStr match_id)]"

definition history_reply :: "string list \<Rightarrow> response" where
  "history_reply ids =
     ok (JObj [(''puuid'', JStr ''P1''), (''history'', JArr (map listed ids))])"

definition player :: "string \<Rightarrow> string \<Rightarrow> int \<Rightarrow> int \<Rightarrow> int \<Rightarrow> json" where
  "player pid team k d a =
     JObj [(''puuid'', JStr pid), (''teamId'', JStr team),
           (''stats'', JObj [(''kills'', JNum k), (''deaths'', JNum d), (''assists'', JNum a)])]"

definition detail :: "json list \<Rightarrow> bool \<Rightarrow> json" where
  "detail players red_won =
     JObj [(''players'', JArr players),
           (''teams'', JObj [(''Red'', JObj [(''won'', JBool red_won)]),
                             (''Blue'', JObj [(''won'', JBool (\<not> red_won))])])]"

text \<open>
  Six matches are listed and five are kept. The second detail call is answered with
  status 503; of the four others, the first and the third are wins of the caller \<open>P1\<close>.
\<close>

definition five_world :: world where
  "five_world =
     example_world '' Ann#EUW ''
       [account_reply, shard_reply ''eu'',
        history_reply [''m1'', ''m2'', ''m3'', ''m4'', ''m5'', ''m6''],
        ok (detail [player ''P2'' ''Blue'' 9 9 9, player ''P1'' ''Red'' 4 2 1] True),
        Reply 503 None,
        ok (detail [player ''P1'' ''Blue'' 5 3 2] False),
        ok (detail [player ''P1'' ''Blue'' 1 0 0] True),
        ok (detail [player ''P1'' ''Red'' 0 4 6] False)]"

text \<open>The shard code \<open>pbe\<close> is none of the six keys of the table; one match is listed.\<close>

definition pbe_world :: world where
  "pbe_world =
     example_world ''Ann#EUW''
       [account_reply, shard_reply ''pbe'', history_reply [''m1''],
        ok (detail [player ''P1'' ''Red'' 2 1 0] True)]"

text \<open>Two matches without a death: 3 kills and 2 assists in all.\<close>

definition flawless_world :: world where
  "flawless_world =
     example_world ''Ann#EUW''
       [account_reply, shard_reply ''na'', history_reply [''m1'', ''m2''],
        ok (detail [player ''P1'' ''Red'' 3 0 1] True),
        ok (detail [player ''P1'' ''Blue'' 0 0 1] True)]"

text \<open>The second of two matches was played by others.\<close>

definition stranger_world :: world where
  "stranger_world =
     example_world ''Ann#EUW''
       [account_reply, shard_reply ''kr'', history_reply [''m1'', ''m2''],
        ok (detail [player ''P1'' ''Red'' 4 2 1] True),
        ok (detail [player ''P2'' ''Red'' 7 7 7, player ''P3'' ''Blue'' 1 1 1] True)]"

text \<open>In the second of two matches, an entry without \<^verbatim>\<open>puuid\<close> comes before the caller's.\<close>

definition broken_world :: world where
  "broken_world =
     example_world ''Ann#EUW''
       [account_reply, shard_reply ''br'', history_reply [''m1'', ''m2''],
        ok (detail [player ''P1'' ''Red'' 4 2 1] True),
        ok (detail [JObj [(''teamId'', JStr ''Red'')], player ''P1'' ''Blue'' 1 1 1] True)]"

text \<open>An account that has played nothing.\<close>

definition idle_world :: world where
  "idle_world = example_world ''Ann#EUW'' [account_reply, shard_reply ''ap'', history_reply []]"

text \<open>An account answer without \<^verbatim>\<open>puuid\<close>, and an account call that does not get through.\<close>

definition anonymous_world :: world where
  "anonymous_world =
     example_world ''Ann#EUW'' [ok (JObj [(''gameName'', JStr ''Ann''), (''tagLine'', JStr ''EUW'')])]"

definition offline_world :: world where
  "offline_world = example_world ''Ann#EUW'' [Conn_failed ''Connection refused'']"

text \<open>
  The session that the example worlds reach once the match list is there, for the host
  of the shard and the match ids that are kept.
\<close>

definition example_session :: "string \<Rightarrow> string list \<Rightarrow> session" where
  "example_session val_domain ids =
     \<lparr>credential = ''RGAPI-0000'', ident = ''Ann#EUW'', host = val_domain,
      account_id = JStr ''P1'',
      match_items = map listed ids\<rparr>"

text \<open>
  The first of two detail calls is answered with status 503, and the second detail holds
  one entry, which has no \<^verbatim>\<open>puuid\<close>.
\<close>

definition skip_then_abort_world :: world where
  "skip_then_abort_world =
     example_world ''Ann#EUW''
       [account_reply, shard_reply ''eu'', history_reply [''m1'', ''m2''],
        Reply 503 None,
        ok (detail [JObj [(''teamId'', JStr ''Red'')]] True)]"

text \<open>One match, whose only entry has no \<^verbatim>\<open>puuid\<close>: the caller is not among the players.\<close>

definition lonely_world :: world where
  "lonely_world =
     example_world ''Ann#EUW''
       [account_reply, shard_reply ''eu'', history_reply [''m1''],
        ok (detail [JObj [(''teamId'', JStr ''Red'')]] True)]"

section \<open>Facts about the stages\<close>

lemma length_split_on: "length (split_on c s) = Suc (count_list s c)"
  by (induction s) (auto split: list.splits)

lemma count_list_dropWhile: "\<not> P c \<Longrightarrow> count_list (dropWhile P s) c = count_list s c"
  by (induction s) auto

lemma count_list_strip: "\<not> is_space c \<Longrightarrow> count_list (strip s) c = count_list s c"
  by (simp add: strip_def count_list_dropWhile)

lemma hash_not_space: "\<not> is_space CHR ''#''"
  by (simp add: is_space_def)

lemma get_json_fails:
  "get_json w n url key = Inl e \<longleftrightarrow>
     (\<exists>msg. net w n url key = Conn_failed msg \<and> e = RequestException msg)
     \<or> (\<exists>status body. net w n url key = Reply status body
            \<and> (if 400 \<le> status \<and> status < 600 then e = HTTPError status
                else body = None \<and> e = JSONDecodeError))"
  by (auto simp: get_json_def split: response.splits option.splits)

lemma then_stage_Inr:
  "then_stage m f = (ev, Inr y) \<longleftrightarrow> (\<exists>e1 x e2. m = (e1, Inr x) \<and> f x = (e2, Inr y) \<and> ev = e1 @ e2)"
  by (cases m; cases "snd m") (auto simp: then_stage_def split: prod.splits sum.splits)

lemma startup_Inr:
  "startup w = (e, Inr x) \<Longrightarrow> e = [Input prompt]"
  by (auto simp: startup_def Let_def split: option.splits if_splits list.splits)

lemma fetch_puuid_Inr:
  "fetch_puuid w key g t = (e, Inr p) \<Longrightarrow>
     \<exists>acct. e = [Http_get (account_url g t) key, Print [Lit ''ACCOUNT DATA: '', StrOf acct]]"
  by (auto simp: fetch_puuid_def Let_def split: sum.splits prod.splits)

lemma fetch_shard_Inr:
  "fetch_shard w key p = (e, Inr r) \<Longrightarrow>
     e = [Http_get (active_shard_url p) key, Print [Lit ''ACTIVE SHARD: '', StrOf r]]"
  by (auto simp: fetch_shard_def Let_def split: sum.splits prod.splits)

lemma pick_host_quiet: "fst (pick_host r) = []"
  by (auto simp: pick_host_def Let_def split: sum.splits option.splits)

lemma fetch_matches_Inr:
  "fetch_matches w key d p = (e, Inr ms) \<Longrightarrow>
     e = [Http_get (match_history_url d p) key] \<and> length ms \<le> 5"
  by (auto simp: fetch_matches_def Let_def and_then_def get_or_def first_five_def split: sum.splits prod.splits json.splits)


lemma pick_host_events: "pick_host r = (e, x) \<Longrightarrow> e = []"
  using pick_host_quiet [of r] by simp

lemma resolve_Inr:
  assumes "resolve w = (ev, Inr s)"
  shows "\<exists>g t acct region.
           ev = [Input prompt,
                 Http_get (account_url g t) (credential s),
                 Print [Lit ''ACCOUNT DATA: '', StrOf acct],
                 Http_get (active_shard_url (account_id s)) (credential s),
                 Print [Lit ''ACTIVE SHARD: '', StrOf region],
                 Http_get (match_history_url (host s) (account_id s)) (credential s)]
         \<and> length (match_items s) \<le> 5"
  using assms
  apply (auto simp: resolve_def then_stage_Inr
           dest!: startup_Inr fetch_puuid_Inr fetch_shard_Inr pick_host_events fetch_matches_Inr)
  apply blast
  done

lemma resolve_requests: "resolve w = (ev, Inr s) \<Longrightarrow> requests_in ev = 3"
  by (auto dest!: resolve_Inr simp: requests_in_def)

lemma resolve_capped: "resolve w = (ev, Inr s) \<Longrightarrow> length (match_items s) \<le> 5"
  by (auto dest!: resolve_Inr)

lemma then_stage_silent:
  assumes "\<not> list_ex is_stat_line (fst m)"
    and "\<And>x. \<not> list_ex is_stat_line (fst (f x))"
  shows "\<not> list_ex is_stat_line (fst (then_stage m f))"
proof (cases m)
  case (Pair ev r)
  show ?thesis
  proof (cases r)
    case (Inl out)
    with Pair assms(1) show ?thesis by (simp add: then_stage_def)
  next
    case (Inr x)
    obtain ev' r' where fx: "f x = (ev', r')" by (cases "f x")
    with assms(2) [of x] have "\<not> list_ex is_stat_line ev'" by simp
    with Pair Inr fx assms(1) show ?thesis by (simp add: then_stage_def)
  qed
qed

lemma startup_silent: "\<not> list_ex is_stat_line (fst (startup w))"
  by (simp add: startup_def prompt_def missing_key_msg_def invalid_id_msg_def Let_def
           split: option.splits list.splits)

lemma fetch_puuid_silent: "\<not> list_ex is_stat_line (fst (fetch_puuid w key g t))"
  by (simp add: fetch_puuid_def account_url_def Let_def split: sum.splits prod.splits)

lemma fetch_shard_silent: "\<not> list_ex is_stat_line (fst (fetch_shard w key p))"
  by (simp add: fetch_shard_def Let_def split: sum.splits)

lemma fetch_matches_silent: "\<not> list_ex is_stat_line (fst (fetch_matches w key d p))"
  by (simp add: fetch_matches_def Let_def split: sum.splits)

lemma resolve_silent: "\<not> list_ex is_stat_line (fst (resolve w))"
  unfolding resolve_def case_prod_beta
  by (intro then_stage_silent startup_silent fetch_puuid_silent fetch_shard_silent
        fetch_matches_silent)
     (simp_all add: pick_host_quiet)

lemma process_match_silent: "\<not> list_ex is_stat_line (fst (process_match w s n t m))"
  by (simp add: process_match_def skip_msg_def Let_def split: sum.splits)

lemma match_loop_silent: "\<not> list_ex is_stat_line (fst (match_loop w s n t ms))"
proof (induction ms arbitrary: n t)
  case Nil
  show ?case by simp
next
  case (Cons m ms)
  obtain ev r where pm: "process_match w s n t m = (ev, r)" by (cases "process_match w s n t m")
  with process_match_silent [of w s n t m] have ev: "\<not> list_ex is_stat_line ev" by simp
  show ?case
  proof (cases r)
    case (Inl e)
    with pm ev show ?thesis by simp
  next
    case (Inr t')
    obtain ev' r' where ml: "match_loop w s (n + requests_in ev) t' ms = (ev', r')"
      by (cases "match_loop w s (n + requests_in ev) t' ms")
    with Cons.IH [of "n + requests_in ev" t'] have "\<not> list_ex is_stat_line ev'" by simp
    with pm Inr ml ev show ?thesis by simp
  qed
qed

lemma process_match_requests:
  "process_match w s n t m = (ev, Inr t') \<Longrightarrow> requests_in ev = 1"
  by (auto simp: process_match_def requests_in_def Let_def split: sum.splits)

lemma match_loop_requests:
  "match_loop w s n t ms = (ev, Inr t') \<Longrightarrow> requests_in ev = length ms"
proof (induction ms arbitrary: n t ev)
  case Nil
  then show ?case by (simp add: requests_in_def)
next
  case (Cons m ms)
  obtain e1 r1 where pm: "process_match w s n t m = (e1, r1)" by (cases "process_match w s n t m")
  with Cons.prems obtain t1 where r1: "r1 = Inr t1" by (cases r1) auto
  obtain e2 r2 where ml: "match_loop w s (n + requests_in e1) t1 ms = (e2, r2)"
    by (cases "match_loop w s (n + requests_in e1) t1 ms")
  with Cons.prems pm r1 have ev: "ev = e1 @ e2" and r2: "r2 = Inr t'" by auto
  from Cons.IH [OF ml [unfolded r2]] process_match_requests [OF pm [unfolded r1]] ev
  show ?case by (simp add: requests_in_def)
qed

lemma match_loop_append:
  "match_loop w s n t (xs @ ys) =
     (case match_loop w s n t xs of
        (ev, Inl e) \<Rightarrow> (ev, Inl e)
      | (ev, Inr t') \<Rightarrow>
          (case match_loop w s (n + requests_in ev) t' ys of (ev', r) \<Rightarrow> (ev @ ev', r)))"
proof (induction xs arbitrary: n t)
  case Nil
  show ?case by (simp add: requests_in_def split: prod.splits)
next
  case (Cons m xs)
  show ?case
    by (simp add: Cons.IH requests_in_def add.assoc split: prod.splits sum.splits)
qed

lemmas value_defs = subscript_def get_or_def py_add_def py_index_def lookup_key_def and_then_def
  first_five_def is_space_def strip_def is_substring_def
lemmas stage_defs = then_stage_def startup_def get_json_def fetch_puuid_def fetch_shard_def
  pick_host_def fetch_matches_def resolve_def region_map_def americas_def Let_def
lemmas match_defs = search_players_def won_flag_def team_won_def add_player_stats_def
  add_match_stats_def process_match_def requests_in_def kda_def float_overflows_def
  finish_def after_history_def after_def main_def no_totals_def
lemmas example_defs = scripted_def example_world_def ok_def account_reply_def shard_reply_def
  history_reply_def player_def detail_def listed_def example_session_def
lemmas run_defs = value_defs stage_defs match_defs example_defs

lemma startup_ok:
  assumes "api_key w = Some key" "key \<noteq> []" "stdin w = Some entered"
    and "split_on CHR ''#'' (strip entered) = [g, t]"
  shows "startup w = ([Input prompt], Inr (key, strip entered, g, t))"
  using assms by (simp add: startup_def Let_def)

lemma main_resolve_Inl: "resolve w = (ev, Inl out) \<Longrightarrow> main w = (ev, out)"
  by (simp add: main_def)

lemma main_resolve_Inr: "resolve w = (ev, Inr s) \<Longrightarrow> main w = after ev (after_history w s)"
  by (simp add: main_def)

lemma reports_main:
  assumes "reports (main w)"
  obtains ev s ev' t where "resolve w = (ev, Inr s)" "match_items s \<noteq> []"
    "match_loop w s 3 no_totals (match_items s) = (ev', Inr t)"
    "main w = (ev @ ev' @ report (ident s) t (length (match_items s)), Returned)"
    "\<not> float_overflows (kda t)" "\<not> list_ex is_stat_line ev" "\<not> list_ex is_stat_line ev'"
proof -
  obtain ev r where res: "resolve w = (ev, r)" by (cases "resolve w")
  with resolve_silent [of w] have ev: "\<not> list_ex is_stat_line ev" by simp
  show ?thesis
  proof (cases r)
    case (Inl out)
    with res ev assms show ?thesis by (simp add: main_def reports_def)
  next
    case (Inr s)
    note m = main_resolve_Inr [OF res [unfolded Inr]]
    have ne: "match_items s \<noteq> []"
    proof
      assume "match_items s = []"
      with m ev assms show False
        by (simp add: reports_def after_def after_history_def no_matches_msg_def)
    qed
    obtain ev' r' where ml: "match_loop w s 3 no_totals (match_items s) = (ev', r')"
      by (cases "match_loop w s 3 no_totals (match_items s)")
    with match_loop_silent [of w s 3 no_totals "match_items s"]
    have ev': "\<not> list_ex is_stat_line ev'" by simp
    show ?thesis
    proof (cases r')
      case (Inl e)
      with m ne ml ev ev' assms show ?thesis
        by (simp add: reports_def after_def after_history_def finish_def)
    next
      case (Inr t)
      have fits: "\<not> float_overflows (kda t)"
      proof
        assume "float_overflows (kda t)"
        with m ne ml Inr ev ev' assms show False
          by (simp add: reports_def after_def after_history_def finish_def)
      qed
      with m ne ml Inr
      have "main w = (ev @ ev' @ report (ident s) t (length (match_items s)), Returned)"
        by (simp add: after_def after_history_def finish_def)
      with that res \<open>r = Inr s\<close> ne ml Inr fits ev ev' show ?thesis by blast
    qed
  qed
qed

subsection \<open>The turns of the loop\<close>

lemma finish_prepend:
  "finish rid g (case r of (ev', x) \<Rightarrow> (ev @ ev', x)) = after ev (finish rid g r)"
  by (cases r; cases "snd r") (auto simp: finish_def after_def)

lemma after_after: "after a (after b r) = after (a @ b) r"
  by (cases r) (simp add: after_def)

lemma after_Cons: "after ev (ev', out) = (ev @ ev', out)"
  by (simp add: after_def)

lemma match_loop_Cons_Inr:
  assumes "process_match w s n t m = (ev, Inr t')"
  shows "match_loop w s n t (m # rest) =
           (case match_loop w s (Suc n) t' rest of (ev', r) \<Rightarrow> (ev @ ev', r))"
  using assms process_match_requests [OF assms] by simp

lemma match_loop_Cons_Inl:
  "process_match w s n t m = (ev, Inl e) \<Longrightarrow> match_loop w s n t (m # rest) = (ev, Inl e)"
  by simp

lemma main_at_turn:
  assumes "resolve w = (ev0, Inr s)" and "match_items s = xs @ m # rest"
    and "match_loop w s 3 no_totals xs = (ev1, Inr t)"
  shows "main w = after (ev0 @ ev1)
           (finish (ident s) (length (match_items s))
              (match_loop w s (3 + length xs) t (m # rest)))"
proof -
  have "match_loop w s 3 no_totals (match_items s) =
          (case match_loop w s (3 + length xs) t (m # rest) of (ev', r) \<Rightarrow> (ev1 @ ev', r))"
    unfolding assms(2) match_loop_append assms(3)
    using match_loop_requests [OF assms(3)] by simp
  then have "after_history w s =
      after ev1 (finish (ident s) (length (match_items s))
                   (match_loop w s (3 + length xs) t (m # rest)))"
    using assms(2) by (simp add: after_history_def finish_prepend)
  with main_resolve_Inr [OF assms(1)] show ?thesis by (simp add: after_after)
qed

lemma turn_continues:
  assumes "resolve w = (ev0, Inr s)" and "match_items s = xs @ m # rest"
    and "match_loop w s 3 no_totals xs = (ev1, Inr t)"
    and "process_match w s (3 + length xs) t m = (ev, Inr t')"
  shows "main w = after (ev0 @ ev1 @ ev)
           (finish (ident s) (length (match_items s)) (match_loop w s (4 + length xs) t' rest))"
proof -
  have "match_loop w s (3 + length xs) t (m # rest) =
          (case match_loop w s (4 + length xs) t' rest of (ev', r) \<Rightarrow> (ev @ ev', r))"
    using match_loop_Cons_Inr [OF assms(4)] by simp
  with main_at_turn [OF assms(1-3)] show ?thesis
    by (simp add: finish_prepend after_after)
qed

lemma turn_raises:
  assumes "resolve w = (ev0, Inr s)" and "match_items s = xs @ m # rest"
    and "match_loop w s 3 no_totals xs = (ev1, Inr t)"
    and "process_match w s (3 + length xs) t m = (ev, Inl e)"
  shows "main w = (ev0 @ ev1 @ ev, Aborted e)"
  using main_at_turn [OF assms(1-3)] match_loop_Cons_Inl [OF assms(4)]
  by (simp add: finish_def after_def)

lemma subscript_Inl: "subscript v k = Inl e \<Longrightarrow> e = KeyError k \<or> e = TypeError"
  by (auto simp: subscript_def split: json.splits option.splits)

lemma find_player_none:
  "\<forall>p\<in>set ps. \<exists>v. subscript p ''puuid'' = Inr v \<and> \<not> py_eq v pu \<Longrightarrow>
     find_player ps pu = Inr JNull"
  by (induction ps) auto

lemma find_player_first:
  assumes "\<forall>q\<in>set pre. \<exists>u. subscript q ''puuid'' = Inr u \<and> \<not> py_eq u pu"
    and "subscript p ''puuid'' = Inr v" and "py_eq v pu"
  shows "find_player (pre @ p # post) pu = Inr p"
  using assms by (induction pre) auto

lemma find_player_selected:
  assumes "find_player ps pu = Inr p" and "p \<noteq> JNull"
  shows "\<exists>pre post v. ps = pre @ p # post \<and> subscript p ''puuid'' = Inr v \<and> py_eq v pu
           \<and> (\<forall>q\<in>set pre. \<exists>u. subscript q ''puuid'' = Inr u \<and> \<not> py_eq u pu)"
  using assms
proof (induction ps)
  case Nil
  then show ?case by simp
next
  case (Cons q ps)
  from Cons.prems(1) obtain u where u: "subscript q ''puuid'' = Inr u"
    by (cases "subscript q ''puuid''") auto
  show ?case
  proof (cases "py_eq u pu")
    case True
    with Cons.prems(1) u have "p = q" by simp
    with u True have "q # ps = [] @ p # ps \<and> subscript p ''puuid'' = Inr u \<and> py_eq u pu
        \<and> (\<forall>q\<in>set []. \<exists>u. subscript q ''puuid'' = Inr u \<and> \<not> py_eq u pu)"
      by simp
    then show ?thesis by blast
  next
    case False
    with Cons.prems(1) u have "find_player ps pu = Inr p" by simp
    from Cons.IH [OF this Cons.prems(2)]
    obtain pre post v where "ps = pre @ p # post" and "subscript p ''puuid'' = Inr v"
      and "py_eq v pu"
      and "\<forall>q\<in>set pre. \<exists>u. subscript q ''puuid'' = Inr u \<and> \<not> py_eq u pu"
      by blast
    with u False have "q # ps = (q # pre) @ p # post \<and> subscript p ''puuid'' = Inr v
        \<and> py_eq v pu
        \<and> (\<forall>q\<in>set (q # pre). \<exists>u. subscript q ''puuid'' = Inr u \<and> \<not> py_eq u pu)"
      by simp
    then show ?thesis by blast
  qed
qed

lemma find_player_no_match:
  "\<forall>p\<in>set ps. \<forall>v. subscript p ''puuid'' = Inr v \<longrightarrow> \<not> py_eq v pu \<Longrightarrow>
     find_player ps pu = Inr JNull \<or> (\<exists>e. find_player ps pu = Inl e)"
  by (induction ps) (auto split: sum.splits)

lemma find_player_raises:
  assumes "\<forall>q\<in>set pre. \<forall>v. subscript q ''puuid'' = Inr v \<longrightarrow> \<not> py_eq v pu"
    and "subscript bad ''puuid'' = Inl e0"
  shows "\<exists>e. find_player (pre @ bad # post) pu = Inl e \<and> (e = KeyError ''puuid'' \<or> e = TypeError)"
  using assms
proof (induction pre)
  case Nil
  then show ?case using subscript_Inl [of bad "''puuid''" e0] by auto
next
  case (Cons q pre)
  show ?case
  proof (cases "subscript q ''puuid''")
    case (Inl e)
    with subscript_Inl [OF Inl] show ?thesis by auto
  next
    case (Inr v)
    with Cons show ?thesis by auto
  qed
qed

subsection \<open>The example with five matches\<close>

lemma five_world_reports: "reports (main five_world)"
  by (simp add: reports_def run_defs five_world_def report_def)

lemma stat_line_not_in:
  "\<not> list_ex is_stat_line ev \<Longrightarrow> is_stat_line e \<Longrightarrow> e \<notin> set ev"
  by (auto simp: list_ex_iff)

section \<open>The claims\<close>

subsection \<open>The Riot ID\<close>

text \<open>
  Claim C4. When the credential is there and the line that is typed holds no \<open>#\<close> or more
  than one, the run prints the prompt and the format error and returns: its trace holds
  no request at all. Stripping the line does not change the number of separators, and the
  split of a string has one part more than it has separators.
\<close>

theorem invalid_riot_id_no_network:
  assumes "api_key w = Some key" and "key \<noteq> []" and "stdin w = Some entered"
    and "count_list entered CHR ''#'' \<noteq> 1"
  shows "main w = ([Input prompt, Print invalid_id_msg], Returned)
       \<and> requests_in (fst (main w)) = 0"
proof -
  have "length (split_on CHR ''#'' (strip entered)) \<noteq> 2"
    using assms(4) by (simp add: length_split_on count_list_strip hash_not_space)
  then have "startup w = ([Input prompt, Print invalid_id_msg], Inl Returned)"
    using assms(1-3) by (auto simp: startup_def Let_def split: list.splits)
  then have "main w = ([Input prompt, Print invalid_id_msg], Returned)"
    by (simp add: main_def resolve_def then_stage_def)
  then show ?thesis by (simp add: requests_in_def)
qed

theorem invalid_riot_id_no_network_witness:
  "main (example_world ''Ann#EUW#1'' [account_reply]) =
     ([Input prompt, Print invalid_id_msg], Returned)
   \<and> main (example_world ''AnnEUW'' [account_reply]) =
     ([Input prompt, Print invalid_id_msg], Returned)"
  using invalid_riot_id_no_network
      [of "example_world ''Ann#EUW#1'' [account_reply]" "''RGAPI-0000''" "''Ann#EUW#1''"]
    invalid_riot_id_no_network
      [of "example_world ''AnnEUW'' [account_reply]" "''RGAPI-0000''" "''AnnEUW''"]
  by (simp add: example_world_def)

subsection \<open>The account lookup\<close>

text \<open>
  Claim C7. Once the Riot ID is read, an account answer that is a dict without the key
  \<^verbatim>\<open>puuid\<close> and an account call that raises in transport end the run in the same way:
  the handler of lines 43 to 45 prints its message with the exception (\<^verbatim>\<open>KeyError\<close> in
  the one case, the transport error in the other) and \<^verbatim>\<open>main\<close> returns. The trace is the
  prompt, the one request and that message: no further request and no report.
\<close>

theorem missing_puuid_like_transport_failure:
  assumes "api_key w = Some key" and "key \<noteq> []" and "stdin w = Some entered"
    and "split_on CHR ''#'' (strip entered) = [game_name, tag_line]"
  shows "(net w 0 (account_url game_name tag_line) key = Reply status (Some (JObj body))
            \<and> \<not> (400 \<le> status \<and> status < 600) \<and> map_of body ''puuid'' = None
          \<longrightarrow> main w = ([Input prompt, Http_get (account_url game_name tag_line) key,
                          Print [Lit ''Error fetching PUUID: '', ExnStr (KeyError ''puuid'')]],
                         Returned))
       \<and> (net w 0 (account_url game_name tag_line) key = Conn_failed msg
          \<longrightarrow> main w = ([Input prompt, Http_get (account_url game_name tag_line) key,
                          Print [Lit ''Error fetching PUUID: '', ExnStr (RequestException msg)]],
                         Returned))"
proof -
  note st = startup_ok [OF assms]
  have raised: "main w = ([Input prompt, Http_get (account_url game_name tag_line) key,
                           Print [Lit ''Error fetching PUUID: '', ExnStr e]], Returned)"
    if "and_then (get_json w 0 (account_url game_name tag_line) key)
          (\<lambda>account_data. and_then (subscript account_data ''puuid'')
             (\<lambda>puuid. Inr (account_data, puuid))) = Inl e" for e
    using that st by (simp add: main_def resolve_def then_stage_def fetch_puuid_def Let_def)
  show ?thesis
  proof (intro conjI impI)
    assume "net w 0 (account_url game_name tag_line) key = Reply status (Some (JObj body))
            \<and> \<not> (400 \<le> status \<and> status < 600) \<and> map_of body ''puuid'' = None"
    then show "main w = ([Input prompt, Http_get (account_url game_name tag_line) key,
                          Print [Lit ''Error fetching PUUID: '', ExnStr (KeyError ''puuid'')]],
                         Returned)"
      by (intro raised) (simp add: get_json_def and_then_def subscript_def)
  next
    assume "net w 0 (account_url game_name tag_line) key = Conn_failed msg"
    then show "main w = ([Input prompt, Http_get (account_url game_name tag_line) key,
                          Print [Lit ''Error fetching PUUID: '', ExnStr (RequestException msg)]],
                         Returned)"
      by (intro raised) (simp add: get_json_def and_then_def)
  qed
qed

theorem missing_puuid_like_transport_failure_witness:
  "main anonymous_world =
     ([Input prompt, Http_get (account_url ''Ann'' ''EUW'') ''RGAPI-0000'',
       Print [Lit ''Error fetching PUUID: '', ExnStr (KeyError ''puuid'')]], Returned)
   \<and> main offline_world =
     ([Input prompt, Http_get (account_url ''Ann'' ''EUW'') ''RGAPI-0000'',
       Print [Lit ''Error fetching PUUID: '', ExnStr (RequestException ''Connection refused'')]],
      Returned)"
proof -
  have sp: "split_on CHR ''#'' (strip ''Ann#EUW'') = [''Ann'', ''EUW'']"
    by (simp add: strip_def is_space_def)
  have a: "main anonymous_world =
     ([Input prompt, Http_get (account_url ''Ann'' ''EUW'') ''RGAPI-0000'',
       Print [Lit ''Error fetching PUUID: '', ExnStr (KeyError ''puuid'')]], Returned)"
    using missing_puuid_like_transport_failure
      [of anonymous_world "''RGAPI-0000''" "''Ann#EUW''" "''Ann''" "''EUW''" 200
          "[(''gameName'', JStr ''Ann''), (''tagLine'', JStr ''EUW'')]", OF _ _ _ sp]
    by (simp add: anonymous_world_def example_world_def scripted_def ok_def)
  have b: "main offline_world =
     ([Input prompt, Http_get (account_url ''Ann'' ''EUW'') ''RGAPI-0000'',
       Print [Lit ''Error fetching PUUID: '', ExnStr (RequestException ''Connection refused'')]],
      Returned)"
    using missing_puuid_like_transport_failure
      [of offline_world "''RGAPI-0000''" "''Ann#EUW''" "''Ann''" "''EUW''" _ _ "''Connection refused''", OF _ _ _ sp]
    by (simp add: offline_world_def example_world_def scripted_def)
  from a b show ?thesis by simp
qed

subsection \<open>The empty match list\<close>

text \<open>
  Claim C8. When the run has come through the match list call and the capped list is
  empty, it prints the line \<^verbatim>\<open>No matches found.\<close> and returns. Before that line, its
  trace is the prompt, the account call and its line, the shard call and its line, and
  the match list call: three requests, none of them for a match detail, and no line of
  statistics.
\<close>

theorem empty_match_list_exit:
  assumes "resolve w = (ev, Inr s)" and "match_items s = []"
  shows "main w = (ev @ [Print [Lit ''No matches found.'']], Returned)
       \<and> (\<exists>game_name tag_line account_data actual_region.
             ev = [Input prompt,
                   Http_get (account_url game_name tag_line) (credential s),
                   Print [Lit ''ACCOUNT DATA: '', StrOf account_data],
                   Http_get (active_shard_url (account_id s)) (credential s),
                   Print [Lit ''ACTIVE SHARD: '', StrOf actual_region],
                   Http_get (match_history_url (host s) (account_id s)) (credential s)])
       \<and> requests_in (fst (main w)) = 3
       \<and> \<not> reports (main w)"
proof -
  have m: "main w = (ev @ [Print [Lit ''No matches found.'']], Returned)"
    using assms by (simp add: main_def after_def after_history_def no_matches_msg_def)
  from resolve_Inr [OF assms(1)]
  have shape: "\<exists>game_name tag_line account_data actual_region.
             ev = [Input prompt,
                   Http_get (account_url game_name tag_line) (credential s),
                   Print [Lit ''ACCOUNT DATA: '', StrOf account_data],
                   Http_get (active_shard_url (account_id s)) (credential s),
                   Print [Lit ''ACTIVE SHARD: '', StrOf actual_region],
                   Http_get (match_history_url (host s) (account_id s)) (credential s)]"
    by blast
  have "\<not> list_ex is_stat_line ev"
    using resolve_silent [of w] assms(1) by simp
  with m resolve_requests [OF assms(1)]
  have "requests_in (fst (main w)) = 3 \<and> \<not> reports (main w)"
    by (simp add: reports_def requests_in_def)
  with m shape show ?thesis by blast
qed

theorem empty_match_list_exit_witness:
  "resolve idle_world =
     (fst (resolve idle_world), Inr (example_session ''asia.api.riotgames.com'' []))
   \<and> main idle_world =
       ([Input prompt,
         Http_get (account_url ''Ann'' ''EUW'') ''RGAPI-0000'',
         Print [Lit ''ACCOUNT DATA: '',
                StrOf (JObj [(''puuid'', JStr ''P1''), (''gameName'', JStr ''Ann''),
                             (''tagLine'', JStr ''EUW'')])],
         Http_get (active_shard_url (JStr ''P1'')) ''RGAPI-0000'',
         Print [Lit ''ACTIVE SHARD: '', StrOf (JStr ''ap'')],
         Http_get (match_history_url ''asia.api.riotgames.com'' (JStr ''P1'')) ''RGAPI-0000'',
         Print [Lit ''No matches found.'']],
        Returned)
   \<and> requests_in (fst (main idle_world)) = 3
   \<and> \<not> reports (main idle_world)"
proof -
  have r: "resolve idle_world =
             (fst (resolve idle_world), Inr (example_session ''asia.api.riotgames.com'' []))"
    by (simp add: run_defs idle_world_def)
  have e: "match_items (example_session ''asia.api.riotgames.com'' []) = []"
    by (simp add: example_session_def)
  have tr: "fst (resolve idle_world) =
       [Input prompt,
         Http_get (account_url ''Ann'' ''EUW'') ''RGAPI-0000'',
         Print [Lit ''ACCOUNT DATA: '',
                StrOf (JObj [(''puuid'', JStr ''P1''), (''gameName'', JStr ''Ann''),
                             (''tagLine'', JStr ''EUW'')])],
         Http_get (active_shard_url (JStr ''P1'')) ''RGAPI-0000'',
         Print [Lit ''ACTIVE SHARD: '', StrOf (JStr ''ap'')],
         Http_get (match_history_url ''asia.api.riotgames.com'' (JStr ''P1'')) ''RGAPI-0000'']"
    by (simp add: run_defs idle_world_def prompt_def account_url_def active_shard_url_def
          match_history_url_def)
  from empty_match_list_exit [OF r e]
  have "main idle_world = (fst (resolve idle_world) @ [Print [Lit ''No matches found.'']], Returned)"
    and "requests_in (fst (main idle_world)) = 3" and "\<not> reports (main idle_world)"
    by blast+
  with r show ?thesis unfolding tr by simp
qed

subsection \<open>A shard code outside the table\<close>

text \<open>
  Claim C1 says that a shard code outside the table makes the run print a warning, use
  the americas host and go on. The run does use the americas host and does go on, but
  it prints no warning: line 78 asks that the host that was picked differs from the
  americas host and that the code is no key of the table, and a code that is no key is
  given the americas host. Here the code \<open>pbe\<close> is no key of the table; the run with
  this code sends the match list call and the match detail call to the americas host
  and reports, and the line of line 79 is not in its trace. No shard code at all makes
  the stage print anything.
\<close>

theorem unknown_shard_prints_no_warning:
  "map_of region_map ''pbe'' = None
   \<and> pick_host (JStr ''pbe'') = ([], Inr ''americas.api.riotgames.com'')
   \<and> main pbe_world =
       ([Input prompt,
         Http_get (account_url ''Ann'' ''EUW'') ''RGAPI-0000'',
         Print [Lit ''ACCOUNT DATA: '',
                StrOf (JObj [(''puuid'', JStr ''P1''), (''gameName'', JStr ''Ann''),
                             (''tagLine'', JStr ''EUW'')])],
         Http_get (active_shard_url (JStr ''P1'')) ''RGAPI-0000'',
         Print [Lit ''ACTIVE SHARD: '', StrOf (JStr ''pbe'')],
         Http_get (match_history_url ''americas.api.riotgames.com'' (JStr ''P1'')) ''RGAPI-0000'',
         Http_get (match_url ''americas.api.riotgames.com'' (JStr ''m1'')) ''RGAPI-0000'']
        @ report ''Ann#EUW''
            \<lparr>total_kills = 2, total_deaths = 1, total_assists = 0, total_wins = 1\<rparr> 1,
        Returned)
   \<and> Print (unknown_shard_msg (JStr ''pbe'')) \<notin> set (fst (main pbe_world))
   \<and> (\<forall>actual_region. fst (pick_host actual_region) = [])"
proof -
  have general: "\<forall>actual_region. fst (pick_host actual_region) = []"
    by (simp add: pick_host_quiet)
  have "map_of region_map ''pbe'' = None
   \<and> pick_host (JStr ''pbe'') = ([], Inr ''americas.api.riotgames.com'')
   \<and> main pbe_world =
       ([Input prompt,
         Http_get (account_url ''Ann'' ''EUW'') ''RGAPI-0000'',
         Print [Lit ''ACCOUNT DATA: '',
                StrOf (JObj [(''puuid'', JStr ''P1''), (''gameName'', JStr ''Ann''),
                             (''tagLine'', JStr ''EUW'')])],
         Http_get (active_shard_url (JStr ''P1'')) ''RGAPI-0000'',
         Print [Lit ''ACTIVE SHARD: '', StrOf (JStr ''pbe'')],
         Http_get (match_history_url ''americas.api.riotgames.com'' (JStr ''P1'')) ''RGAPI-0000'',
         Http_get (match_url ''americas.api.riotgames.com'' (JStr ''m1'')) ''RGAPI-0000'']
        @ report ''Ann#EUW''
            \<lparr>total_kills = 2, total_deaths = 1, total_assists = 0, total_wins = 1\<rparr> 1,
        Returned)
   \<and> Print (unknown_shard_msg (JStr ''pbe'')) \<notin> set (fst (main pbe_world))"
    by (simp add: run_defs pbe_world_def report_def win_rate_def fixed_def prompt_def
          account_url_def active_shard_url_def match_history_url_def match_url_def
          unknown_shard_msg_def)
  with general show ?thesis by blast
qed

subsection \<open>A match detail that cannot be fetched\<close>

text \<open>
  Claim C5, amended. Let the run have come to an item of the capped list that carries a
  match id, with the totals \<open>t\<close>, and let the detail call for it fail inside the \<^verbatim>\<open>try\<close> (the
  call raises, the status is between 400 and 599, or the body is not JSON). Then the run
  sends the request, prints the line \<^verbatim>\<open>Skipping match ... due to error: ...\<close> with the match
  id and the exception, and goes on with the items that remain, with the same totals and
  the same number of games. Whenever the loop over the remaining items comes to its end,
  with a KDA within the floats, the run prints the report, with the number of all the
  items of the list as the denominator of the win rate.
\<close>

theorem failed_detail_call_is_skipped:
  assumes "resolve w = (ev0, Inr s)" and "match_items s = xs @ match_item # rest"
    and "match_loop w s 3 no_totals xs = (ev1, Inr t)"
    and "subscript match_item ''matchId'' = Inr match_id"
    and "get_json w (3 + length xs) (match_url (host s) match_id) (credential s) = Inl e"
  shows "main w =
           after (ev0 @ ev1 @
                  [Http_get (match_url (host s) match_id) (credential s),
                   Print [Lit ''Skipping match '', StrOf match_id, Lit '' due to error: '',
                          ExnStr e]])
             (finish (ident s) (length (match_items s))
                (match_loop w s (4 + length xs) t rest))
       \<and> (\<forall>ev2 t2. match_loop w s (4 + length xs) t rest = (ev2, Inr t2)
                    \<and> \<not> float_overflows (kda t2) \<longrightarrow>
             main w =
               (ev0 @ ev1 @
                [Http_get (match_url (host s) match_id) (credential s),
                 Print [Lit ''Skipping match '', StrOf match_id, Lit '' due to error: '',
                        ExnStr e]]
                @ ev2 @
                [Print [Lit (CHR 0x0A # ''Stats for ''), Lit (ident s), Lit '':''],
                 Print [Lit ''KDA: '', Fixed 2 (kda t2)],
                 Print [Lit ''Win Rate: '',
                        Fixed 1 (of_int (total_wins t2) / of_nat (length (match_items s)) * 100),
                        Lit ''%'']],
                Returned))"
proof -
  have "process_match w s (3 + length xs) t match_item =
          ([Http_get (match_url (host s) match_id) (credential s),
            Print [Lit ''Skipping match '', StrOf match_id, Lit '' due to error: '', ExnStr e]],
           Inr t)"
    using assms(4,5) by (simp add: process_match_def skip_msg_def Let_def)
  from turn_continues [OF assms(1-3) this]
  have m: "main w =
           after (ev0 @ ev1 @
                  [Http_get (match_url (host s) match_id) (credential s),
                   Print [Lit ''Skipping match '', StrOf match_id, Lit '' due to error: '',
                          ExnStr e]])
             (finish (ident s) (length (match_items s))
                (match_loop w s (4 + length xs) t rest))" .
  have ne: "length (match_items s) \<noteq> 0" using assms(2) by simp
  show ?thesis
  proof (intro conjI allI impI)
    show "main w =
           after (ev0 @ ev1 @
                  [Http_get (match_url (host s) match_id) (credential s),
                   Print [Lit ''Skipping match '', StrOf match_id, Lit '' due to error: '',
                          ExnStr e]])
             (finish (ident s) (length (match_items s))
                (match_loop w s (4 + length xs) t rest))"
      by (rule m)
  next
    fix ev2 t2
    assume "match_loop w s (4 + length xs) t rest = (ev2, Inr t2)
              \<and> \<not> float_overflows (kda t2)"
    with m ne show "main w =
               (ev0 @ ev1 @
                [Http_get (match_url (host s) match_id) (credential s),
                 Print [Lit ''Skipping match '', StrOf match_id, Lit '' due to error: '',
                        ExnStr e]]
                @ ev2 @
                [Print [Lit (CHR 0x0A # ''Stats for ''), Lit (ident s), Lit '':''],
                 Print [Lit ''KDA: '', Fixed 2 (kda t2)],
                 Print [Lit ''Win Rate: '',
                        Fixed 1 (of_int (total_wins t2) / of_nat (length (match_items s)) * 100),
                        Lit ''%'']],
                Returned)"
      by (simp add: finish_def after_def report_def win_rate_def fixed_def)
  qed
qed

theorem failed_detail_call_is_skipped_witness:
  "get_json five_world 4 (match_url ''eu.api.riotgames.com'' (JStr ''m2'')) ''RGAPI-0000'' =
     Inl (HTTPError 503)
   \<and> main five_world =
       after (fst (resolve five_world)
              @ [Http_get (match_url ''eu.api.riotgames.com'' (JStr ''m1'')) ''RGAPI-0000'']
              @ [Http_get (match_url ''eu.api.riotgames.com'' (JStr ''m2'')) ''RGAPI-0000'',
                 Print [Lit ''Skipping match '', StrOf (JStr ''m2''), Lit '' due to error: '',
                        ExnStr (HTTPError 503)]])
         (finish ''Ann#EUW'' 5
            (match_loop five_world
               (example_session ''eu.api.riotgames.com'' [''m1'', ''m2'', ''m3'', ''m4'', ''m5'']) 5
               \<lparr>total_kills = 4, total_deaths = 2, total_assists = 1, total_wins = 1\<rparr>
               [listed ''m3'', listed ''m4'', listed ''m5'']))
   \<and> last (fst (main five_world)) = Print [Lit ''Win Rate: '', Fixed 1 40, Lit ''%'']"
proof -
  let ?s = "example_session ''eu.api.riotgames.com'' [''m1'', ''m2'', ''m3'', ''m4'', ''m5'']"
  have sel: "host ?s = ''eu.api.riotgames.com''" "credential ?s = ''RGAPI-0000''"
    "ident ?s = ''Ann#EUW''" "length (match_items ?s) = 5"
    "3 + length [listed ''m1''] = 4" "4 + length [listed ''m1''] = 5"
    by (simp_all add: example_session_def)
  have h1: "resolve five_world = (fst (resolve five_world), Inr ?s)"
    by (simp add: run_defs five_world_def)
  have h2: "match_items ?s =
              [listed ''m1''] @ listed ''m2'' # [listed ''m3'', listed ''m4'', listed ''m5'']"
    by (simp add: example_session_def)
  have h3: "match_loop five_world ?s 3 no_totals [listed ''m1''] =
      ([Http_get (match_url ''eu.api.riotgames.com'' (JStr ''m1'')) ''RGAPI-0000''],
       Inr \<lparr>total_kills = 4, total_deaths = 2, total_assists = 1, total_wins = 1\<rparr>)"
    by (simp add: run_defs five_world_def match_url_def)
  have h4: "subscript (listed ''m2'') ''matchId'' = Inr (JStr ''m2'')"
    by (simp add: subscript_def listed_def)
  have h5: "get_json five_world (3 + length [listed ''m1'']) (match_url (host ?s) (JStr ''m2''))
              (credential ?s) = Inl (HTTPError 503)"
    by (simp add: run_defs five_world_def)
  have l: "last (fst (main five_world)) = Print [Lit ''Win Rate: '', Fixed 1 40, Lit ''%'']"
    by (simp add: run_defs five_world_def report_def win_rate_def fixed_def)
  from failed_detail_call_is_skipped [OF h1 h2 h3 h4 h5] h5 l
  show ?thesis unfolding sel by blast
qed

text \<open>
  As it is worded, the claim promises the report after every detail call that fails.
  Here the detail call for \<open>m1\<close> is answered with status 503 and the run logs it and goes
  on; the detail of \<open>m2\<close> then holds an entry without \<^verbatim>\<open>puuid\<close>, line 123 raises, and the
  run ends without a report.
\<close>

theorem failed_detail_call_then_no_report:
  "get_json skip_then_abort_world 3 (match_url ''eu.api.riotgames.com'' (JStr ''m1''))
     ''RGAPI-0000'' = Inl (HTTPError 503)
   \<and> main skip_then_abort_world =
       ([Input prompt,
         Http_get (account_url ''Ann'' ''EUW'') ''RGAPI-0000'',
         Print [Lit ''ACCOUNT DATA: '',
                StrOf (JObj [(''puuid'', JStr ''P1''), (''gameName'', JStr ''Ann''),
                             (''tagLine'', JStr ''EUW'')])],
         Http_get (active_shard_url (JStr ''P1'')) ''RGAPI-0000'',
         Print [Lit ''ACTIVE SHARD: '', StrOf (JStr ''eu'')],
         Http_get (match_history_url ''eu.api.riotgames.com'' (JStr ''P1'')) ''RGAPI-0000'',
         Http_get (match_url ''eu.api.riotgames.com'' (JStr ''m1'')) ''RGAPI-0000'',
         Print [Lit ''Skipping match '', StrOf (JStr ''m1''), Lit '' due to error: '',
                ExnStr (HTTPError 503)],
         Http_get (match_url ''eu.api.riotgames.com'' (JStr ''m2'')) ''RGAPI-0000''],
        Aborted (KeyError ''puuid''))
   \<and> \<not> reports (main skip_then_abort_world)"
  by (simp add: reports_def run_defs skip_then_abort_world_def prompt_def account_url_def
        active_shard_url_def match_history_url_def match_url_def skip_msg_def)

subsection \<open>A match without the caller\<close>

text \<open>
  Claim C6, amended. Let the run have come to an item of the capped list, with the
  totals \<open>t\<close>, and let its detail be fetched as a dict. If the dict has no \<^verbatim>\<open>players\<close>, or
  if \<^verbatim>\<open>players\<close> is a list (empty or not) whose entries all carry a \<^verbatim>\<open>puuid\<close> other than
  the caller's, the run sends the request and goes on with the items that remain, with
  the same totals and the same number of games: the match adds nothing to kills, deaths,
  assists or wins, and when the run reports, the match counts in the denominator of the
  win rate. If an entry has the caller's \<^verbatim>\<open>puuid\<close> and the entries before it carry other
  ones, that entry is the one the search selects, whatever comes after it; and an entry
  that the search selects is always the first one with the caller's \<^verbatim>\<open>puuid\<close>.
\<close>

theorem absent_caller_leaves_totals:
  assumes "resolve w = (ev0, Inr s)" and "match_items s = xs @ match_item # rest"
    and "match_loop w s 3 no_totals xs = (ev1, Inr t)"
    and "subscript match_item ''matchId'' = Inr match_id"
    and "get_json w (3 + length xs) (match_url (host s) match_id) (credential s) =
           Inr (JObj body)"
    and "map_of body ''players'' = None
          \<or> (\<exists>ps. map_of body ''players'' = Some (JArr ps)
                \<and> (\<forall>p\<in>set ps. \<exists>v. subscript p ''puuid'' = Inr v
                                   \<and> \<not> py_eq v (account_id s)))"
  shows "main w =
           after (ev0 @ ev1 @ [Http_get (match_url (host s) match_id) (credential s)])
             (finish (ident s) (length (match_items s))
                (match_loop w s (4 + length xs) t rest))
       \<and> (\<forall>ev2 t2. match_loop w s (4 + length xs) t rest = (ev2, Inr t2)
                    \<and> \<not> float_overflows (kda t2) \<longrightarrow>
             main w =
               (ev0 @ ev1 @ [Http_get (match_url (host s) match_id) (credential s)]
                @ ev2 @
                [Print [Lit (CHR 0x0A # ''Stats for ''), Lit (ident s), Lit '':''],
                 Print [Lit ''KDA: '', Fixed 2 (kda t2)],
                 Print [Lit ''Win Rate: '',
                        Fixed 1 (of_int (total_wins t2) / of_nat (length (match_items s)) * 100),
                        Lit ''%'']],
                Returned))
       \<and> ((\<forall>q\<in>set pre. \<exists>u. subscript q ''puuid'' = Inr u \<and> \<not> py_eq u (account_id s))
            \<and> subscript p ''puuid'' = Inr v \<and> py_eq v (account_id s)
          \<longrightarrow> find_player (pre @ p # post) (account_id s) = Inr p)
       \<and> (find_player entries (account_id s) = Inr chosen \<and> chosen \<noteq> JNull
          \<longrightarrow> (\<exists>before rest' u. entries = before @ chosen # rest'
                \<and> subscript chosen ''puuid'' = Inr u \<and> py_eq u (account_id s)
                \<and> (\<forall>q\<in>set before. \<exists>u'. subscript q ''puuid'' = Inr u'
                                        \<and> \<not> py_eq u' (account_id s))))"
proof -
  have "add_match_stats (account_id s) t (JObj body) = Inr t"
  proof (rule disjE [OF assms(6)])
    assume "map_of body ''players'' = None"
    then show ?thesis by (simp add: add_match_stats_def get_or_def and_then_def)
  next
    assume "\<exists>ps. map_of body ''players'' = Some (JArr ps)
                \<and> (\<forall>p\<in>set ps. \<exists>v. subscript p ''puuid'' = Inr v
                                   \<and> \<not> py_eq v (account_id s))"
    then obtain ps where ps: "map_of body ''players'' = Some (JArr ps)"
      and none: "\<forall>p\<in>set ps. \<exists>v. subscript p ''puuid'' = Inr v \<and> \<not> py_eq v (account_id s)"
      by blast
    from find_player_none [OF none] ps show ?thesis
      by (simp add: add_match_stats_def get_or_def and_then_def search_players_def)
  qed
  with assms(4,5)
  have "process_match w s (3 + length xs) t match_item =
          ([Http_get (match_url (host s) match_id) (credential s)], Inr t)"
    by (simp add: process_match_def Let_def)
  from turn_continues [OF assms(1-3) this]
  have m: "main w =
          after (ev0 @ ev1 @ [Http_get (match_url (host s) match_id) (credential s)])
            (finish (ident s) (length (match_items s))
               (match_loop w s (4 + length xs) t rest))" .
  have ne: "length (match_items s) \<noteq> 0" using assms(2) by simp
  show ?thesis
  proof (intro conjI allI impI)
    show "main w =
          after (ev0 @ ev1 @ [Http_get (match_url (host s) match_id) (credential s)])
            (finish (ident s) (length (match_items s))
               (match_loop w s (4 + length xs) t rest))"
      by (rule m)
  next
    fix ev2 t2
    assume "match_loop w s (4 + length xs) t rest = (ev2, Inr t2)
              \<and> \<not> float_overflows (kda t2)"
    with m ne show "main w =
               (ev0 @ ev1 @ [Http_get (match_url (host s) match_id) (credential s)]
                @ ev2 @
                [Print [Lit (CHR 0x0A # ''Stats for ''), Lit (ident s), Lit '':''],
                 Print [Lit ''KDA: '', Fixed 2 (kda t2)],
                 Print [Lit ''Win Rate: '',
                        Fixed 1 (of_int (total_wins t2) / of_nat (length (match_items s)) * 100),
                        Lit ''%'']],
                Returned)"
      by (simp add: finish_def after_def report_def win_rate_def fixed_def)
  next
    assume "(\<forall>q\<in>set pre. \<exists>u. subscript q ''puuid'' = Inr u \<and> \<not> py_eq u (account_id s))
            \<and> subscript p ''puuid'' = Inr v \<and> py_eq v (account_id s)"
    then show "find_player (pre @ p # post) (account_id s) = Inr p"
      using find_player_first [of pre "account_id s" p v post] by blast
  next
    assume "find_player entries (account_id s) = Inr chosen \<and> chosen \<noteq> JNull"
    then show "\<exists>before rest' u. entries = before @ chosen # rest'
                \<and> subscript chosen ''puuid'' = Inr u \<and> py_eq u (account_id s)
                \<and> (\<forall>q\<in>set before. \<exists>u'. subscript q ''puuid'' = Inr u'
                                        \<and> \<not> py_eq u' (account_id s))"
      using find_player_selected [of entries "account_id s" chosen] by blast
  qed
qed

theorem absent_caller_leaves_totals_witness:
  "main stranger_world =
     (fst (resolve stranger_world)
      @ [Http_get (match_url ''kr.api.riotgames.com'' (JStr ''m1'')) ''RGAPI-0000'',
         Http_get (match_url ''kr.api.riotgames.com'' (JStr ''m2'')) ''RGAPI-0000'']
      @ [Print [Lit (CHR 0x0A # ''Stats for ''), Lit ''Ann#EUW'', Lit '':''],
         Print [Lit ''KDA: '', Fixed 2 (5 / 2)],
         Print [Lit ''Win Rate: '', Fixed 1 50, Lit ''%'']],
      Returned)
   \<and> find_player ([player ''P2'' ''Red'' 7 7 7] @ player ''P1'' ''Blue'' 1 1 1
                    # [player ''P1'' ''Red'' 9 9 9]) (JStr ''P1'') =
       Inr (player ''P1'' ''Blue'' 1 1 1)"
proof -
  let ?s = "example_session ''kr.api.riotgames.com'' [''m1'', ''m2'']"
  let ?ps = "[player ''P2'' ''Red'' 7 7 7, player ''P3'' ''Blue'' 1 1 1]"
  let ?body = "[(''players'', JArr ?ps),
                (''teams'', JObj [(''Red'', JObj [(''won'', JBool True)]),
                                  (''Blue'', JObj [(''won'', JBool False)])])]"
  let ?t = "\<lparr>total_kills = 4, total_deaths = 2, total_assists = 1, total_wins = 1\<rparr>"
  have sel: "host ?s = ''kr.api.riotgames.com''" "credential ?s = ''RGAPI-0000''"
    "ident ?s = ''Ann#EUW''" "length (match_items ?s) = 2" "account_id ?s = JStr ''P1''"
    by (simp_all add: example_session_def)
  have h1: "resolve stranger_world = (fst (resolve stranger_world), Inr ?s)"
    by (simp add: run_defs stranger_world_def)
  have h2: "match_items ?s = [listed ''m1''] @ listed ''m2'' # []"
    by (simp add: example_session_def)
  have h3: "match_loop stranger_world ?s 3 no_totals [listed ''m1''] =
      ([Http_get (match_url ''kr.api.riotgames.com'' (JStr ''m1'')) ''RGAPI-0000''], Inr ?t)"
    by (simp add: run_defs stranger_world_def match_url_def)
  have h4: "subscript (listed ''m2'') ''matchId'' = Inr (JStr ''m2'')"
    by (simp add: subscript_def listed_def)
  have h5: "get_json stranger_world (3 + length [listed ''m1''])
              (match_url (host ?s) (JStr ''m2'')) (credential ?s) = Inr (JObj ?body)"
    by (simp add: run_defs stranger_world_def)
  have h6: "map_of ?body ''players'' = None
          \<or> (\<exists>ps. map_of ?body ''players'' = Some (JArr ps)
                \<and> (\<forall>p\<in>set ps. \<exists>v. subscript p ''puuid'' = Inr v
                                   \<and> \<not> py_eq v (account_id ?s)))"
    by (simp add: sel subscript_def player_def)
  note inst = absent_caller_leaves_totals [where pre = "[player ''P2'' ''Red'' 7 7 7]"
      and p = "player ''P1'' ''Blue'' 1 1 1" and v = "JStr ''P1''"
      and post = "[player ''P1'' ''Red'' 9 9 9]" and entries = "[]" and chosen = JNull,
      OF h1 h2 h3 h4 h5 h6]
  have one: "\<forall>q\<in>set [player ''P2'' ''Red'' 7 7 7].
               \<exists>u. subscript q ''puuid'' = Inr u \<and> \<not> py_eq u (account_id ?s)"
    by (simp add: sel subscript_def player_def)
  have mine: "subscript (player ''P1'' ''Blue'' 1 1 1) ''puuid'' = Inr (JStr ''P1'')
              \<and> py_eq (JStr ''P1'') (account_id ?s)"
    by (simp add: sel subscript_def player_def)
  have rest: "match_loop stranger_world ?s (4 + length [listed ''m1'']) ?t [] = ([], Inr ?t)
              \<and> \<not> float_overflows (kda ?t)"
    by (simp add: kda_def float_overflows_def)
  from inst rest
  have m: "main stranger_world =
     (fst (resolve stranger_world)
      @ [Http_get (match_url ''kr.api.riotgames.com'' (JStr ''m1'')) ''RGAPI-0000'']
      @ [Http_get (match_url (host ?s) (JStr ''m2'')) (credential ?s)]
      @ [] @
      [Print [Lit (CHR 0x0A # ''Stats for ''), Lit (ident ?s), Lit '':''],
       Print [Lit ''KDA: '', Fixed 2 (kda ?t)],
       Print [Lit ''Win Rate: '',
              Fixed 1 (of_int (total_wins ?t) / of_nat (length (match_items ?s)) * 100),
              Lit ''%'']],
      Returned)"
    by blast
  from inst one mine
  have f: "find_player ([player ''P2'' ''Red'' 7 7 7] @ player ''P1'' ''Blue'' 1 1 1
                    # [player ''P1'' ''Red'' 9 9 9]) (account_id ?s) =
       Inr (player ''P1'' ''Blue'' 1 1 1)"
    by blast
  from m f show ?thesis by (simp add: sel kda_def)
qed

text \<open>
  As it is worded, the claim covers every participant list without the caller's account
  id, and every list with a matching entry. Here the only entry of the only match has no
  \<^verbatim>\<open>puuid\<close>: no entry is the caller's, and yet the run does not go on to a report, since
  line 123 raises. And when such an entry stands before the entry of the caller, the
  search raises and selects nothing.
\<close>

theorem caller_absent_but_run_aborts:
  "main lonely_world =
       ([Input prompt,
         Http_get (account_url ''Ann'' ''EUW'') ''RGAPI-0000'',
         Print [Lit ''ACCOUNT DATA: '',
                StrOf (JObj [(''puuid'', JStr ''P1''), (''gameName'', JStr ''Ann''),
                             (''tagLine'', JStr ''EUW'')])],
         Http_get (active_shard_url (JStr ''P1'')) ''RGAPI-0000'',
         Print [Lit ''ACTIVE SHARD: '', StrOf (JStr ''eu'')],
         Http_get (match_history_url ''eu.api.riotgames.com'' (JStr ''P1'')) ''RGAPI-0000'',
         Http_get (match_url ''eu.api.riotgames.com'' (JStr ''m1'')) ''RGAPI-0000''],
        Aborted (KeyError ''puuid''))
   \<and> \<not> reports (main lonely_world)
   \<and> find_player [JObj [(''teamId'', JStr ''Red'')], player ''P1'' ''Blue'' 1 1 1]
         (JStr ''P1'') = Inl (KeyError ''puuid'')"
  by (simp add: reports_def run_defs lonely_world_def prompt_def account_url_def
        active_shard_url_def match_history_url_def match_url_def)

subsection \<open>An entry without the account id\<close>

text \<open>
  Claim C9. Let the run have come to an item of the capped list, and let its detail be
  fetched as a dict whose \<^verbatim>\<open>players\<close> list holds an entry without the key \<^verbatim>\<open>puuid\<close>, with
  no entry before it that carries the caller's \<^verbatim>\<open>puuid\<close>. Then the search of line 123
  raises (\<^verbatim>\<open>KeyError\<close>, or \<^verbatim>\<open>TypeError\<close> when an earlier entry is no dict), nothing handles
  the exception, and the run ends there: its trace stops at the request for that match
  and holds no line of statistics.
\<close>

theorem entry_without_puuid_aborts:
  assumes "resolve w = (ev0, Inr s)" and "match_items s = xs @ match_item # rest"
    and "match_loop w s 3 no_totals xs = (ev1, Inr t)"
    and "subscript match_item ''matchId'' = Inr match_id"
    and "get_json w (3 + length xs) (match_url (host s) match_id) (credential s) =
           Inr (JObj body)"
    and "map_of body ''players'' = Some (JArr (pre @ JObj entry # post))"
    and "map_of entry ''puuid'' = None"
    and "\<forall>q\<in>set pre. \<forall>v. subscript q ''puuid'' = Inr v \<longrightarrow> \<not> py_eq v (account_id s)"
  shows "\<exists>e. (e = KeyError ''puuid'' \<or> e = TypeError)
           \<and> main w =
               (ev0 @ ev1 @ [Http_get (match_url (host s) match_id) (credential s)], Aborted e)
           \<and> \<not> reports (main w)"
proof -
  have "subscript (JObj entry) ''puuid'' = Inl (KeyError ''puuid'')"
    using assms(7) by (simp add: subscript_def)
  from find_player_raises [OF assms(8) this]
  obtain e where fp: "find_player (pre @ JObj entry # post) (account_id s) = Inl e"
    and e: "e = KeyError ''puuid'' \<or> e = TypeError"
    by blast
  from fp assms(6) have "add_match_stats (account_id s) t (JObj body) = Inl e"
    by (simp add: add_match_stats_def get_or_def and_then_def search_players_def)
  with assms(4,5)
  have "process_match w s (3 + length xs) t match_item =
          ([Http_get (match_url (host s) match_id) (credential s)], Inl e)"
    by (simp add: process_match_def Let_def)
  from turn_raises [OF assms(1-3) this]
  have m: "main w =
             (ev0 @ ev1 @ [Http_get (match_url (host s) match_id) (credential s)], Aborted e)" .
  have "\<not> list_ex is_stat_line ev0"
    using resolve_silent [of w] assms(1) by simp
  moreover have "\<not> list_ex is_stat_line ev1"
    using match_loop_silent [of w s 3 no_totals xs] assms(3) by simp
  ultimately have "\<not> reports (main w)"
    using m by (simp add: reports_def)
  with e m show ?thesis by blast
qed

theorem entry_without_puuid_aborts_witness:
  "main broken_world =
     (fst (resolve broken_world)
      @ [Http_get (match_url ''americas.api.riotgames.com'' (JStr ''m1'')) ''RGAPI-0000'']
      @ [Http_get (match_url ''americas.api.riotgames.com'' (JStr ''m2'')) ''RGAPI-0000''],
      Aborted (KeyError ''puuid''))
   \<and> \<not> reports (main broken_world)"
proof -
  let ?s = "example_session ''americas.api.riotgames.com'' [''m1'', ''m2'']"
  let ?body = "[(''players'', JArr ([] @ JObj [(''teamId'', JStr ''Red'')]
                                      # [player ''P1'' ''Blue'' 1 1 1])),
                (''teams'', JObj [(''Red'', JObj [(''won'', JBool True)]),
                                  (''Blue'', JObj [(''won'', JBool False)])])]"
  let ?t = "\<lparr>total_kills = 4, total_deaths = 2, total_assists = 1, total_wins = 1\<rparr>"
  have sel: "host ?s = ''americas.api.riotgames.com''" "credential ?s = ''RGAPI-0000''"
    by (simp_all add: example_session_def)
  have h1: "resolve broken_world = (fst (resolve broken_world), Inr ?s)"
    by (simp add: run_defs broken_world_def)
  have h2: "match_items ?s = [listed ''m1''] @ listed ''m2'' # []"
    by (simp add: example_session_def)
  have h3: "match_loop broken_world ?s 3 no_totals [listed ''m1''] =
      ([Http_get (match_url ''americas.api.riotgames.com'' (JStr ''m1'')) ''RGAPI-0000''],
       Inr ?t)"
    by (simp add: run_defs broken_world_def match_url_def)
  have h4: "subscript (listed ''m2'') ''matchId'' = Inr (JStr ''m2'')"
    by (simp add: subscript_def listed_def)
  have h5: "get_json broken_world (3 + length [listed ''m1''])
              (match_url (host ?s) (JStr ''m2'')) (credential ?s) = Inr (JObj ?body)"
    by (simp add: run_defs broken_world_def)
  have h6: "map_of ?body ''players'' =
              Some (JArr ([] @ JObj [(''teamId'', JStr ''Red'')] # [player ''P1'' ''Blue'' 1 1 1]))"
    by simp
  have h7: "map_of [(''teamId'', JStr ''Red'')] ''puuid'' = None" by simp
  have h8: "\<forall>q\<in>set []. \<forall>v. subscript q ''puuid'' = Inr v \<longrightarrow> \<not> py_eq v (account_id ?s)"
    by simp
  from entry_without_puuid_aborts [OF h1 h2 h3 h4 h5 h6 h7 h8]
  obtain e where "main broken_world =
      (fst (resolve broken_world)
       @ [Http_get (match_url ''americas.api.riotgames.com'' (JStr ''m1'')) ''RGAPI-0000'']
       @ [Http_get (match_url (host ?s) (JStr ''m2'')) (credential ?s)], Aborted e)"
    and nr: "\<not> reports (main broken_world)"
    by blast
  moreover have "snd (main broken_world) = Aborted (KeyError ''puuid'')"
    by (simp add: run_defs broken_world_def)
  ultimately show ?thesis by (simp add: sel)
qed

subsection \<open>The number of games at the report\<close>

text \<open>
  Claim C10. A run that prints a line of statistics has come through the match list
  call and through the loop, and has reported with \<^verbatim>\<open>games_count\<close> equal to the length of
  the capped list: at least 1, since the empty list returns before the loop, and at most
  5, since the list is cut to five. With that count, line 154 takes the branch of the
  quotient: the win rate that is printed is the float of 100 times the wins of the loop
  over the length of the list, and the int \<^verbatim>\<open>0\<close> of the other branch is never printed as
  a win rate.
\<close>

theorem games_count_between_one_and_five:
  assumes "reports (main w)"
  shows "\<exists>ev s ev' t.
           resolve w = (ev, Inr s)
         \<and> match_loop w s 3 no_totals (match_items s) = (ev', Inr t)
         \<and> 1 \<le> length (match_items s) \<and> length (match_items s) \<le> 5
         \<and> win_rate t (length (match_items s)) =
             PyFloat (of_int (total_wins t) / of_nat (length (match_items s)) * 100)
         \<and> main w =
             (ev @ ev' @
              [Print [Lit (CHR 0x0A # ''Stats for ''), Lit (ident s), Lit '':''],
               Print [Lit ''KDA: '', Fixed 2 (kda t)],
               Print [Lit ''Win Rate: '',
                      Fixed 1 (of_int (total_wins t) / of_nat (length (match_items s)) * 100),
                      Lit ''%'']],
              Returned)
         \<and> (\<forall>d i. Print [Lit ''Win Rate: '', Fixed_int d i, Lit ''%''] \<notin> set (fst (main w)))"
proof -
  from assms obtain ev s ev' t where
    r: "resolve w = (ev, Inr s)" and ne: "match_items s \<noteq> []"
    and ml: "match_loop w s 3 no_totals (match_items s) = (ev', Inr t)"
    and m: "main w = (ev @ ev' @ report (ident s) t (length (match_items s)), Returned)"
    and ev: "\<not> list_ex is_stat_line ev" and ev': "\<not> list_ex is_stat_line ev'"
    by (rule reports_main)
  from ne have pos: "1 \<le> length (match_items s)" by (cases "match_items s") simp_all
  from ne have wr: "win_rate t (length (match_items s)) =
      PyFloat (of_int (total_wins t) / of_nat (length (match_items s)) * 100)"
    by (simp add: win_rate_def)
  from m wr have m': "main w =
             (ev @ ev' @
              [Print [Lit (CHR 0x0A # ''Stats for ''), Lit (ident s), Lit '':''],
               Print [Lit ''KDA: '', Fixed 2 (kda t)],
               Print [Lit ''Win Rate: '',
                      Fixed 1 (of_int (total_wins t) / of_nat (length (match_items s)) * 100),
                      Lit ''%'']],
              Returned)"
    by (simp add: report_def fixed_def)
  have never: "\<forall>d i. Print [Lit ''Win Rate: '', Fixed_int d i, Lit ''%''] \<notin> set (fst (main w))"
  proof (intro allI)
    fix d i
    have "is_stat_line (Print [Lit ''Win Rate: '', Fixed_int d i, Lit ''%''])" by simp
    from stat_line_not_in [OF ev this] stat_line_not_in [OF ev' this]
    show "Print [Lit ''Win Rate: '', Fixed_int d i, Lit ''%''] \<notin> set (fst (main w))"
      unfolding m' by simp
  qed
  from r ml pos resolve_capped [OF r] wr m' never show ?thesis by blast
qed

theorem games_count_between_one_and_five_witness:
  "reports (main five_world)
   \<and> (\<exists>ev s ev' t.
           resolve five_world = (ev, Inr s)
         \<and> match_loop five_world s 3 no_totals (match_items s) = (ev', Inr t)
         \<and> 1 \<le> length (match_items s) \<and> length (match_items s) \<le> 5
         \<and> win_rate t (length (match_items s)) =
             PyFloat (of_int (total_wins t) / of_nat (length (match_items s)) * 100)
         \<and> main five_world =
             (ev @ ev' @
              [Print [Lit (CHR 0x0A # ''Stats for ''), Lit (ident s), Lit '':''],
               Print [Lit ''KDA: '', Fixed 2 (kda t)],
               Print [Lit ''Win Rate: '',
                      Fixed 1 (of_int (total_wins t) / of_nat (length (match_items s)) * 100),
                      Lit ''%'']],
              Returned)
         \<and> (\<forall>d i. Print [Lit ''Win Rate: '', Fixed_int d i, Lit ''%'']
                     \<notin> set (fst (main five_world))))
   \<and> length (match_items (example_session ''eu.api.riotgames.com''
                              [''m1'', ''m2'', ''m3'', ''m4'', ''m5''])) = 5
   \<and> snd (resolve five_world) =
       Inr (example_session ''eu.api.riotgames.com'' [''m1'', ''m2'', ''m3'', ''m4'', ''m5''])"
proof -
  note general = games_count_between_one_and_five [OF five_world_reports]
  have "length (match_items (example_session ''eu.api.riotgames.com''
                              [''m1'', ''m2'', ''m3'', ''m4'', ''m5''])) = 5"
    by (simp add: example_session_def)
  moreover have "snd (resolve five_world) =
       Inr (example_session ''eu.api.riotgames.com'' [''m1'', ''m2'', ''m3'', ''m4'', ''m5''])"
    by (simp add: run_defs five_world_def)
  ultimately show ?thesis using five_world_reports general by blast
qed

subsection \<open>The win rate\<close>

text \<open>
  Claim C2. A run that reports has gone through the loop over the capped list (at most
  five items) with one request for each item, and the win rate that it prints is 100
  times the wins over the length of that list: the matches that were asked for, whether
  or not their detail could be fetched and counted. In the example with five matches,
  the second detail call fails, two of the four others are wins, and the line printed
  last is the win rate 40.
\<close>

theorem win_rate_over_attempted:
  assumes "reports (main w)"
  shows "\<exists>ev s ev' t.
           resolve w = (ev, Inr s)
         \<and> match_loop w s 3 no_totals (match_items s) = (ev', Inr t)
         \<and> requests_in ev' = length (match_items s)
         \<and> length (match_items s) \<le> 5
         \<and> main w =
             (ev @ ev' @
              [Print [Lit (CHR 0x0A # ''Stats for ''), Lit (ident s), Lit '':''],
               Print [Lit ''KDA: '', Fixed 2 (kda t)],
               Print [Lit ''Win Rate: '',
                      Fixed 1 (of_int (total_wins t) / of_nat (length (match_items s)) * 100),
                      Lit ''%'']],
              Returned)"
proof -
  from assms obtain ev s ev' t where
    r: "resolve w = (ev, Inr s)" and ne: "match_items s \<noteq> []"
    and ml: "match_loop w s 3 no_totals (match_items s) = (ev', Inr t)"
    and m: "main w = (ev @ ev' @ report (ident s) t (length (match_items s)), Returned)"
    by (rule reports_main)
  from m ne have "main w =
             (ev @ ev' @
              [Print [Lit (CHR 0x0A # ''Stats for ''), Lit (ident s), Lit '':''],
               Print [Lit ''KDA: '', Fixed 2 (kda t)],
               Print [Lit ''Win Rate: '',
                      Fixed 1 (of_int (total_wins t) / of_nat (length (match_items s)) * 100),
                      Lit ''%'']],
              Returned)"
    by (simp add: report_def win_rate_def fixed_def)
  with r ml match_loop_requests [OF ml] resolve_capped [OF r] show ?thesis by blast
qed

theorem win_rate_over_attempted_witness:
  "reports (main five_world)
   \<and> (\<exists>ev s ev' t.
           resolve five_world = (ev, Inr s)
         \<and> match_loop five_world s 3 no_totals (match_items s) = (ev', Inr t)
         \<and> requests_in ev' = length (match_items s)
         \<and> length (match_items s) \<le> 5
         \<and> main five_world =
             (ev @ ev' @
              [Print [Lit (CHR 0x0A # ''Stats for ''), Lit (ident s), Lit '':''],
               Print [Lit ''KDA: '', Fixed 2 (kda t)],
               Print [Lit ''Win Rate: '',
                      Fixed 1 (of_int (total_wins t) / of_nat (length (match_items s)) * 100),
                      Lit ''%'']],
              Returned))
   \<and> requests_in (fst (main five_world)) = 3 + 5
   \<and> Print (skip_msg (JStr ''m2'') (HTTPError 503)) \<in> set (fst (main five_world))
   \<and> last (fst (main five_world)) = Print [Lit ''Win Rate: '', Fixed 1 40, Lit ''%'']"
proof -
  note general = win_rate_over_attempted [OF five_world_reports]
  have "requests_in (fst (main five_world)) = 3 + 5
    \<and> Print (skip_msg (JStr ''m2'') (HTTPError 503)) \<in> set (fst (main five_world))
    \<and> last (fst (main five_world)) = Print [Lit ''Win Rate: '', Fixed 1 40, Lit ''%'']"
    by (simp add: run_defs five_world_def report_def win_rate_def fixed_def skip_msg_def)
  with five_world_reports general show ?thesis by blast
qed

subsection \<open>The KDA\<close>

text \<open>
  Claim C3. A run that reports prints, as its KDA, the sum of the kills and the assists
  that the loop has added up, divided by their deaths or by 1 when the deaths are less
  than 1. In the example, the totals are 3 kills, 0 deaths and 2 assists, and the KDA
  that is printed is 5.
\<close>

theorem kda_floor_of_one:
  assumes "reports (main w)"
  shows "\<exists>ev s ev' t.
           resolve w = (ev, Inr s)
         \<and> match_loop w s 3 no_totals (match_items s) = (ev', Inr t)
         \<and> main w =
             (ev @ ev' @
              [Print [Lit (CHR 0x0A # ''Stats for ''), Lit (ident s), Lit '':''],
               Print [Lit ''KDA: '',
                      Fixed 2 (of_int (total_kills t + total_assists t)
                               / of_int (max 1 (total_deaths t)))],
               Print [Lit ''Win Rate: '',
                      Fixed 1 (of_int (total_wins t) / of_nat (length (match_items s)) * 100),
                      Lit ''%'']],
              Returned)"
proof -
  from assms obtain ev s ev' t where
    r: "resolve w = (ev, Inr s)" and ne: "match_items s \<noteq> []"
    and ml: "match_loop w s 3 no_totals (match_items s) = (ev', Inr t)"
    and m: "main w = (ev @ ev' @ report (ident s) t (length (match_items s)), Returned)"
    by (rule reports_main)
  from m ne have "main w =
             (ev @ ev' @
              [Print [Lit (CHR 0x0A # ''Stats for ''), Lit (ident s), Lit '':''],
               Print [Lit ''KDA: '',
                      Fixed 2 (of_int (total_kills t + total_assists t)
                               / of_int (max 1 (total_deaths t)))],
               Print [Lit ''Win Rate: '',
                      Fixed 1 (of_int (total_wins t) / of_nat (length (match_items s)) * 100),
                      Lit ''%'']],
              Returned)"
    by (simp add: report_def kda_def win_rate_def fixed_def Let_def)
  with r ml show ?thesis by blast
qed

theorem kda_floor_of_one_witness:
  "reports (main flawless_world)
   \<and> (\<exists>ev s ev' t.
           resolve flawless_world = (ev, Inr s)
         \<and> match_loop flawless_world s 3 no_totals (match_items s) = (ev', Inr t)
         \<and> main flawless_world =
             (ev @ ev' @
              [Print [Lit (CHR 0x0A # ''Stats for ''), Lit (ident s), Lit '':''],
               Print [Lit ''KDA: '',
                      Fixed 2 (of_int (total_kills t + total_assists t)
                               / of_int (max 1 (total_deaths t)))],
               Print [Lit ''Win Rate: '',
                      Fixed 1 (of_int (total_wins t) / of_nat (length (match_items s)) * 100),
                      Lit ''%'']],
              Returned))
   \<and> snd (match_loop flawless_world (example_session americas [''m1'', ''m2'']) 3 no_totals
            (match_items (example_session americas [''m1'', ''m2'']))) =
       Inr \<lparr>total_kills = 3, total_deaths = 0, total_assists = 2, total_wins = 1\<rparr>
   \<and> Print [Lit ''KDA: '', Fixed 2 5] \<in> set (fst (main flawless_world))"
proof -
  have rep: "reports (main flawless_world)"
    by (simp add: reports_def run_defs flawless_world_def report_def)
  note general = kda_floor_of_one [OF rep]
  have "snd (match_loop flawless_world (example_session americas [''m1'', ''m2'']) 3 no_totals
            (match_items (example_session americas [''m1'', ''m2'']))) =
       Inr \<lparr>total_kills = 3, total_deaths = 0, total_assists = 2, total_wins = 1\<rparr>"
    by (simp add: run_defs flawless_world_def)
  moreover have "Print [Lit ''KDA: '', Fixed 2 5] \<in> set (fst (main flawless_world))"
    by (simp add: run_defs flawless_world_def report_def win_rate_def fixed_def)
  ultimately show ?thesis using rep general by blast
qed

end
